theory Spec2Isabelle
  imports Complex_Main "HOL-Library.Word"
begin

section \<open>JavaScript strings and numbers\<close>

text \<open>
  Strings are lists of 8-bit code units: header values, MIME types, hex identifiers and
  the file paths of the examples are all in that range. \<open>toLowerCase\<close> is modelled on
  the letters A to Z and leaves every other code unit alone. Numbers that hold byte
  offsets and lengths are \<open>int\<close>: typed-array lengths are far below \<open>2^53\<close>, where
  JavaScript numbers are exact integers. \<open>NaN\<close>, \<open>null\<close> and \<open>undefined\<close> are
  \<open>None\<close>.
\<close>

definition startsWith :: "string \<Rightarrow> string \<Rightarrow> bool" where
  "startsWith s p = (take (length p) s = p)"

definition endsWith :: "string \<Rightarrow> string \<Rightarrow> bool" where
  "endsWith s p = (length p \<le> length s \<and> drop (length s - length p) s = p)"

text \<open>\<open>s.includes(p)\<close>: \<open>p\<close> occurs somewhere in \<open>s\<close>.\<close>

fun includes_str :: "string \<Rightarrow> string \<Rightarrow> bool" where
  "includes_str [] p = (p = [])"
| "includes_str (c # cs) p = (startsWith (c # cs) p \<or> includes_str cs p)"

text \<open>\<open>s.split(sep)\<close> for a one-character separator: never the empty list.\<close>

fun split :: "char \<Rightarrow> string \<Rightarrow> string list" where
  "split sep [] = [[]]"
| "split sep (c # cs) =
     (if c = sep then [] # split sep cs
      else (case split sep cs of [] \<Rightarrow> [[c]] | p # ps \<Rightarrow> (c # p) # ps))"

text \<open>\<open>xs.join(sep)\<close>.\<close>

fun join :: "string \<Rightarrow> string list \<Rightarrow> string" where
  "join sep [] = []"
| "join sep [x] = x"
| "join sep (x # y # ys) = x @ sep @ join sep (y # ys)"

text \<open>\<open>xs[i]\<close>: \<open>undefined\<close> out of range.\<close>

definition elemAt :: "'a list \<Rightarrow> nat \<Rightarrow> 'a option" where
  "elemAt xs i = (if i < length xs then Some (xs ! i) else None)"

text \<open>\<open>xs.pop()\<close> on the result of a split, which is never empty.\<close>

definition pop :: "string list \<Rightarrow> string" where
  "pop xs = (if xs = [] then [] else last xs)"

definition toLowerCaseChar :: "char \<Rightarrow> char" where
  "toLowerCaseChar c =
     (case map_of (zip ''ABCDEFGHIJKLMNOPQRSTUVWXYZ'' ''abcdefghijklmnopqrstuvwxyz'') c of
        None \<Rightarrow> c | Some l \<Rightarrow> l)"

definition toLowerCase :: "string \<Rightarrow> string" where
  "toLowerCase s = map toLowerCaseChar s"

text \<open>\<open>n.toString()\<close> and template interpolation of an integer: decimal digits.\<close>

fun toDigits :: "nat \<Rightarrow> string" where
  "toDigits n =
     (if n < 10 then [''0123456789'' ! n]
      else toDigits (n div 10) @ [''0123456789'' ! (n mod 10)])"

declare toDigits.simps [simp del]

definition toString :: "int \<Rightarrow> string" where
  "toString n = (if n < 0 then CHR ''-'' # toDigits (nat (- n)) else toDigits (nat n))"

text \<open>
  \<open>parseInt(string)\<close> with no radix, after ECMAScript: skip leading white space, take
  a sign, switch to radix 16 after \<open>0x\<close> or \<open>0X\<close>, read the longest run of digits
  of the radix; no digit at all is \<open>NaN\<close>.
\<close>

definition isStrWhiteSpaceChar :: "char \<Rightarrow> bool" where
  "isStrWhiteSpaceChar c =
     (c \<in> set [CHR 0x09, CHR 0x0A, CHR 0x0B, CHR 0x0C, CHR 0x0D, CHR 0x20, CHR 0xA0])"

definition digitValue :: "char \<Rightarrow> nat" where
  "digitValue c =
     (let n = (of_char c :: nat) in
      if 48 \<le> n \<and> n \<le> 57 then n - 48
      else if 97 \<le> n \<and> n \<le> 122 then n - 87
      else if 65 \<le> n \<and> n \<le> 90 then n - 55
      else 36)"

definition parseInt :: "string \<Rightarrow> int option" where
  "parseInt inputString =
     (let S = dropWhile isStrWhiteSpaceChar inputString;
          sign = (if startsWith S ''-'' then - 1 else 1);
          S1 = (if startsWith S ''+'' \<or> startsWith S ''-'' then drop 1 S else S);
          hex = (startsWith S1 ''0x'' \<or> startsWith S1 ''0X'');
          R = (if hex then 16 else 10);
          S2 = (if hex then drop 2 S1 else S1);
          Z = takeWhile (\<lambda>c. digitValue c < R) S2
      in if Z = [] then None
         else Some (sign * int (foldl (\<lambda>acc c. acc * R + digitValue c) 0 Z)))"

text \<open>\<open>parseInt(parts[i])\<close>: an absent part is \<open>undefined\<close>, read as the string "undefined".\<close>

definition parseIntAt :: "string list \<Rightarrow> nat \<Rightarrow> int option" where
  "parseIntAt parts i = parseInt (case elemAt parts i of None \<Rightarrow> ''undefined'' | Some p \<Rightarrow> p)"

text \<open>\<open>x || d\<close> on a number: \<open>NaN\<close> and \<open>0\<close> are falsy.\<close>

definition orElse :: "int option \<Rightarrow> int \<Rightarrow> int" where
  "orElse x d = (case x of None \<Rightarrow> d | Some v \<Rightarrow> if v = 0 then d else v)"

text \<open>\<open>x || d\<close> on a string: \<open>undefined\<close>, \<open>null\<close> and the empty string are falsy.\<close>

definition truthy :: "string option \<Rightarrow> bool" where
  "truthy x = (case x of None \<Rightarrow> False | Some v \<Rightarrow> v \<noteq> [])"

definition strOrElse :: "string option \<Rightarrow> string \<Rightarrow> string" where
  "strOrElse x d = (case x of None \<Rightarrow> d | Some v \<Rightarrow> if v = [] then d else v)"

text \<open>
  \<open>typedArray.slice(begin, end)\<close>: negative indices count from the end, both are
  clamped to the length, an empty span when \<open>end\<close> is not after \<open>begin\<close>.
\<close>

definition slice :: "'a list \<Rightarrow> int \<Rightarrow> int \<Rightarrow> 'a list" where
  "slice xs b e =
     (let len = int (length xs);
          k = (if b < 0 then max (len + b) 0 else min b len);
          final = (if e < 0 then max (len + e) 0 else min e len);
          count = max (final - k) 0
      in take (nat count) (drop (nat k) xs))"

section \<open>The service worker (peerweb-sw.js)\<close>

subsection \<open>Responses\<close>

text \<open>
  The body of the navigation fallback is a fixed HTML template with the requested path
  put in; it is kept as \<open>FallbackHtml filePath\<close>.
\<close>

datatype body = BytesBody "8 word list" | TextBody string | FallbackHtml string

record response =
  status :: nat
  statusText :: string
  headers :: "(string \<times> string) list"
  body :: body

type_synonym byte_range = "int \<times> int"

definition isMediaFile :: "string option \<Rightarrow> bool" where
  "isMediaFile contentType =
     (case contentType of
        None \<Rightarrow> False
      | Some ct \<Rightarrow>
          if ct = [] then False
          else startsWith ct ''video/'' \<or> startsWith ct ''audio/'' \<or> ct = ''image/gif'')"

definition createMediaResponse ::
  "8 word list \<Rightarrow> string option \<Rightarrow> byte_range option \<Rightarrow> response" where
  "createMediaResponse uint8Array contentType rng =
     (if rng = None \<or> \<not> isMediaFile contentType then
        \<lparr>status = 200, statusText = ''OK'',
         headers =
           [(''Content-Type'', strOrElse contentType ''application/octet-stream''),
            (''Content-Length'', toString (int (length uint8Array))),
            (''Accept-Ranges'', ''bytes''),
            (''Cache-Control'', ''public, max-age=31536000''),
            (''Access-Control-Allow-Origin'', ''*'')],
         body = BytesBody uint8Array\<rparr>
      else
        (case rng of
           None \<Rightarrow> \<lparr>status = 200, statusText = ''OK'', headers = [], body = BytesBody uint8Array\<rparr>
         | Some (rstart, rend) \<Rightarrow>
             let chunkSize = rend - rstart + 1;
                 chunk = slice uint8Array rstart (rend + 1)
             in \<lparr>status = 206, statusText = ''Partial Content'',
                 headers =
                   [(''Content-Type'', strOrElse contentType ''undefined''),
                    (''Content-Length'', toString chunkSize),
                    (''Content-Range'',
                       ''bytes '' @ toString rstart @ ''-'' @ toString rend @ ''/''
                         @ toString (int (length uint8Array))),
                    (''Accept-Ranges'', ''bytes''),
                    (''Cache-Control'', ''public, max-age=31536000''),
                    (''Access-Control-Allow-Origin'', ''*'')],
                 body = BytesBody chunk\<rparr>))"

definition parseRangeHeader :: "string option \<Rightarrow> int \<Rightarrow> byte_range option" where
  "parseRangeHeader rangeHeader fileSize =
     (case rangeHeader of
        None \<Rightarrow> None
      | Some h \<Rightarrow>
          if h = [] \<or> \<not> startsWith h ''bytes='' then None
          else
            let rangeSpec = drop 6 h;
                parts = split CHR ''-'' rangeSpec;
                start0 = orElse (parseIntAt parts 0) 0;
                end0 = orElse (parseIntAt parts 1) (fileSize - 1);
                rstart = max 0 (min start0 (fileSize - 1));
                rend = max rstart (min end0 (fileSize - 1))
            in Some (rstart, rend))"

text \<open>Reading a header of a response.\<close>

definition header :: "response \<Rightarrow> string \<Rightarrow> string option" where
  "header r name = map_of (headers r) name"

subsection \<open>State of the worker\<close>

text \<open>
  The module-level variables, and the two effects of the worker that other processes
  see: \<open>resolved\<close> logs each call of a stored \<open>resolve\<close> callback (the request
  identifier and the response handed to it), \<open>posted\<close> logs each message posted to a
  window client, \<open>timers\<close> the timeouts that were armed. Console output is left out.
\<close>

record pending_request =
  pr_timestamp :: int
  pr_range :: "byte_range option"

record media_entry =
  me_data :: "8 word list"
  me_contentType :: "string option"
  me_length :: int

record resource_request =
  rq_url :: string
  rq_filePath :: string
  rq_requestId :: string
  rq_range :: "byte_range option"

record window_client =
  client_id :: nat
  client_url :: string

record sw_state =
  currentSiteHash :: "string option"
  currentSiteFiles :: "string set"
  pendingRequests :: "string \<rightharpoonup> pending_request"
  mediaCache :: "string \<rightharpoonup> media_entry"
  resolved :: "(string \<times> response) list"
  posted :: "(nat \<times> resource_request) list"
  timers :: "(string \<times> string \<times> nat) list"

definition resolve :: "string \<Rightarrow> response \<Rightarrow> sw_state \<Rightarrow> sw_state" where
  "resolve requestId r s = s\<lparr>resolved := resolved s @ [(requestId, r)]\<rparr>"

subsection \<open>Messages from the page\<close>

record resource_response =
  rr_requestId :: string
  rr_url :: string
  rr_data :: "int list option"
  rr_contentType :: "string option"

record media_chunk_response =
  mc_requestId :: string
  mc_chunk :: "int list option"
  mc_start :: int
  mc_end :: int
  mc_total :: int

datatype message =
    SKIP_WAITING
  | SITE_LOADING "string option"
  | SITE_READY "string option" "string list option"
  | SITE_UNLOADED
  | RESOURCE_RESPONSE resource_response
  | MEDIA_CHUNK_RESPONSE media_chunk_response
  | OTHER_MESSAGE

text \<open>\<open>new Uint8Array(array)\<close>: each number is reduced modulo 256.\<close>

definition Uint8Array :: "int list \<Rightarrow> 8 word list" where
  "Uint8Array xs = map word_of_int xs"

definition handleResourceResponse :: "resource_response \<Rightarrow> sw_state \<Rightarrow> sw_state" where
  "handleResourceResponse d s =
     (case pendingRequests s (rr_requestId d) of
        None \<Rightarrow> s
      | Some pendingRequest \<Rightarrow>
          let s1 = s\<lparr>pendingRequests := (pendingRequests s)(rr_requestId d := None)\<rparr>
          in if (case rr_data d of None \<Rightarrow> False | Some fileData \<Rightarrow> length fileData > 0) then
               let uint8Array = Uint8Array (the (rr_data d));
                   s2 = (if isMediaFile (rr_contentType d) \<and> length uint8Array > 1024 * 100
                         then s1\<lparr>mediaCache := (mediaCache s1)(rr_url d \<mapsto>
                                \<lparr>me_data = uint8Array, me_contentType = rr_contentType d,
                                 me_length = int (length uint8Array)\<rparr>)\<rparr>
                         else s1);
                   r = createMediaResponse uint8Array (rr_contentType d) (pr_range pendingRequest)
               in resolve (rr_requestId d) r s2
             else
               resolve (rr_requestId d)
                 \<lparr>status = 404, statusText = ''Not Found'',
                  headers = [(''Content-Type'', ''text/plain'')],
                  body = TextBody ''File not found in torrent''\<rparr> s1)"

text \<open>
  No pending request is ever stored with a \<open>contentType\<close> field, so
  \<open>pendingRequest.contentType\<close> is \<open>undefined\<close> and the default type is sent.
\<close>

definition handleMediaChunkResponse :: "media_chunk_response \<Rightarrow> sw_state \<Rightarrow> sw_state" where
  "handleMediaChunkResponse d s =
     (case pendingRequests s (mc_requestId d) of
        None \<Rightarrow> s
      | Some pendingRequest \<Rightarrow>
          let s1 = s\<lparr>pendingRequests := (pendingRequests s)(mc_requestId d := None)\<rparr>
          in if (case mc_chunk d of None \<Rightarrow> False | Some chunk \<Rightarrow> length chunk > 0) then
               let uint8Array = Uint8Array (the (mc_chunk d))
               in resolve (mc_requestId d)
                    \<lparr>status = 206, statusText = ''Partial Content'',
                     headers =
                       [(''Content-Type'', ''application/octet-stream''),
                        (''Content-Length'', toString (int (length uint8Array))),
                        (''Content-Range'',
                           ''bytes '' @ toString (mc_start d) @ ''-'' @ toString (mc_end d)
                             @ ''/'' @ toString (mc_total d)),
                        (''Accept-Ranges'', ''bytes''),
                        (''Cache-Control'', ''public, max-age=31536000'')],
                     body = BytesBody uint8Array\<rparr> s1
             else
               resolve (mc_requestId d)
                 \<lparr>status = 416, statusText = [], headers = [],
                  body = TextBody ''Chunk not available''\<rparr> s1)"

fun onMessage :: "message \<Rightarrow> sw_state \<Rightarrow> sw_state" where
  "onMessage SKIP_WAITING s = s"
| "onMessage (SITE_LOADING h) s =
     s\<lparr>currentSiteHash := h, currentSiteFiles := {}, mediaCache := Map.empty\<rparr>"
| "onMessage (SITE_READY h fileList) s =
     (case fileList of
        None \<Rightarrow> s\<lparr>currentSiteHash := h\<rparr>
      | Some fl \<Rightarrow> s\<lparr>currentSiteHash := h, currentSiteFiles := set fl\<rparr>)"
| "onMessage SITE_UNLOADED s =
     s\<lparr>currentSiteHash := None, currentSiteFiles := {}, mediaCache := Map.empty,
       pendingRequests := Map.empty\<rparr>"
| "onMessage (RESOURCE_RESPONSE d) s = handleResourceResponse d s"
| "onMessage (MEDIA_CHUNK_RESPONSE d) s = handleMediaChunkResponse d s"
| "onMessage OTHER_MESSAGE s = s"

subsection \<open>Path normalization\<close>

text \<open>
  \<open>url.search\<close> and \<open>url.hash\<close> of the parsed request URL are strings, empty when
  the URL has no query or fragment.
\<close>

record parsed_url =
  url_pathname :: string
  url_search :: string
  url_hash :: string

definition normalizeFilePath :: "string set \<Rightarrow> string \<Rightarrow> parsed_url \<Rightarrow> string" where
  "normalizeFilePath siteFiles filePath u =
     (if filePath = [] then ''index.html''
      else if endsWith filePath ''/'' then filePath @ ''index.html''
      else if \<not> includes_str filePath ''.'' then
        (let dirPath = filePath @ ''/index.html'' in
         if dirPath \<in> siteFiles then dirPath
         else
           let htmlPath = filePath @ ''.html'' in
           if htmlPath \<in> siteFiles then htmlPath
           else
             let indexPath = filePath @ ''/index.html'' in indexPath)
      else if url_search u \<noteq> [] \<or> url_hash u \<noteq> [] then
        (let cleanPath = hd (split CHR ''#'' (hd (split CHR ''?'' filePath))) in cleanPath)
      else filePath)"

subsection \<open>The round trip to the page\<close>

definition createNavigationFallback :: "string \<Rightarrow> response" where
  "createNavigationFallback filePath =
     (if isMediaFile (Some filePath) then
        \<lparr>status = 503, statusText = ''Service Unavailable'',
         headers = [(''Content-Type'', ''text/plain''), (''Retry-After'', ''5'')],
         body = TextBody ''Media file not available''\<rparr>
      else
        \<lparr>status = 200, statusText = ''OK'',
         headers = [(''Content-Type'', ''text/html''), (''Cache-Control'', ''no-cache'')],
         body = FallbackHtml filePath\<rparr>)"

text \<open>The delay of the timer armed for a request, in milliseconds.\<close>

definition requestTimeout :: "string \<Rightarrow> nat" where
  "requestTimeout filePath = (if isMediaFile (Some filePath) then 10000 else 5000)"

text \<open>The callback of that timer, when it fires.\<close>

definition onTimeout :: "string \<Rightarrow> string \<Rightarrow> sw_state \<Rightarrow> sw_state" where
  "onTimeout requestId filePath s =
     (if pendingRequests s requestId \<noteq> None then
        resolve requestId (createNavigationFallback filePath)
          (s\<lparr>pendingRequests := (pendingRequests s)(requestId := None)\<rparr>)
      else s)"

text \<open>
  The environment of one call: the clock, the nine characters taken from
  \<open>Math.random().toString(36)\<close>, and what \<open>clients.matchAll\<close> answers (\<open>None\<close>
  when it rejects). Storing the entry, arming the timer and the callback of
  \<open>matchAll\<close> are taken as one step.
\<close>

record round_trip_env =
  env_now :: int
  env_random :: string
  env_clients :: "window_client list option"

definition requestResourceFromMainThread ::
  "round_trip_env \<Rightarrow> string \<Rightarrow> string \<Rightarrow> byte_range option \<Rightarrow> sw_state
     \<Rightarrow> string \<times> sw_state" where
  "requestResourceFromMainThread env requestUrl filePath rng s =
     (let requestId = ''req_'' @ toString (env_now env) @ ''_'' @ env_random env;
          s1 = s\<lparr>pendingRequests := (pendingRequests s)(requestId \<mapsto>
                  \<lparr>pr_timestamp = env_now env, pr_range = rng\<rparr>),
                timers := timers s @ [(requestId, filePath, requestTimeout filePath)]\<rparr>;
          msg = \<lparr>rq_url = requestUrl, rq_filePath = filePath, rq_requestId = requestId,
                 rq_range = rng\<rparr>;
          giveUp = resolve requestId (createNavigationFallback filePath)
                     (s1\<lparr>pendingRequests := (pendingRequests s1)(requestId := None)\<rparr>)
      in (requestId,
          (case env_clients env of
             None \<Rightarrow> giveUp
           | Some clients \<Rightarrow>
               let mainClients =
                     filter (\<lambda>c. client_url c \<noteq> [] \<and> \<not> includes_str (client_url c) ''/peerweb-site/'')
                       clients
               in if length mainClients > 0 then
                    s1\<lparr>posted := posted s1 @ [(client_id (hd mainClients), msg)]\<rparr>
                  else if length clients > 0 then
                    s1\<lparr>posted := posted s1 @ [(client_id (hd clients), msg)]\<rparr>
                  else giveUp)))"

subsection \<open>Answering a site-scoped request\<close>

text \<open>
  A request: \<open>request.url\<close>, what \<open>new URL(request.url)\<close> gives for it, and
  \<open>request.headers.get('Range')\<close>.
\<close>

record request =
  req_url :: string
  req_parsed :: parsed_url
  req_Range :: "string option"

datatype outcome = Respond response | Awaiting string

text \<open>
  The handler waits for a site while \<open>currentSiteHash\<close> is not set; other events run
  in between. \<open>resumed\<close> is the state of the worker when that loop is left, through a
  site having arrived or through the two minutes having passed; it is read only when the
  handler had to wait.
\<close>

definition handlePeerWebRequest ::
  "sw_state \<Rightarrow> round_trip_env \<Rightarrow> request \<Rightarrow> sw_state \<Rightarrow> outcome \<times> sw_state" where
  "handlePeerWebRequest resumed env req s0 =
     (let u = req_parsed req;
          pathParts = filter (\<lambda>part. length part > 0) (split CHR ''/'' (url_pathname u))
      in if length pathParts < 2 \<or> hd pathParts \<noteq> ''peerweb-site'' then
           (Respond \<lparr>status = 400, statusText = [], headers = [],
                     body = TextBody ''Invalid PeerWeb URL''\<rparr>, s0)
         else
           let hash = pathParts ! 1;
               filePath0 = join ''/'' (drop 2 pathParts);
               s = (if \<not> truthy (currentSiteHash s0) then resumed else s0)
           in if \<not> truthy (currentSiteHash s) then
                (Respond \<lparr>status = 503, statusText = [],
                   headers = [(''Content-Type'', ''text/plain'')],
                   body = TextBody
                     ''Site not loaded - timeout. The site may be too large or downloading slowly.''\<rparr>,
                 s)
              else if Some hash \<noteq> currentSiteHash s then
                (Respond \<lparr>status = 404, statusText = [],
                   headers = [(''Content-Type'', ''text/plain'')],
                   body = TextBody (''Wrong site loaded. Expected: ''
                     @ the (currentSiteHash s) @ '', Got: '' @ hash)\<rparr>,
                 s)
              else
                let filePath = normalizeFilePath (currentSiteFiles s) filePath0 u
                in (case mediaCache s (req_url req) of
                      Some cachedMedia \<Rightarrow>
                        (case (if truthy (req_Range req)
                               then parseRangeHeader (req_Range req) (me_length cachedMedia)
                               else None) of
                           Some rng \<Rightarrow>
                             (Respond (createMediaResponse (me_data cachedMedia)
                                (me_contentType cachedMedia) (Some rng)), s)
                         | None \<Rightarrow>
                             (Respond (createMediaResponse (me_data cachedMedia)
                                (me_contentType cachedMedia) None), s))
                    | None \<Rightarrow>
                        let rng = None;
                            (requestId, s') =
                              requestResourceFromMainThread env (req_url req) filePath rng s
                        in (Awaiting requestId, s')))"

section \<open>The site manager (peerweb.js)\<close>

subsection \<open>Looking a path up in the site data\<close>

record file_record =
  fr_content :: "8 word list"
  fr_type :: string
  fr_isText :: bool
  fr_isMedia :: bool
  fr_size :: nat

text \<open>
  \<open>currentSiteData\<close> is an object used as a dictionary; it is an association list in
  the order of \<open>Object.keys\<close>, with \<open>None\<close> for \<open>null\<close>. Every stored value is an
  object, hence truthy. Properties inherited from \<open>Object.prototype\<close> are left out.
\<close>

type_synonym site_data = "(string \<times> file_record) list"

definition cleanRequestedPath :: "string \<Rightarrow> string" where
  "cleanRequestedPath requestedPath =
     (let cleanPath = requestedPath;
          cleanPath = (if startsWith cleanPath ''./'' then drop 2 cleanPath else cleanPath);
          cleanPath = (if startsWith cleanPath ''/'' then drop 1 cleanPath else cleanPath)
      in cleanPath)"

text \<open>The three loops of the lookup, each giving the key it stops at.\<close>

definition exactMatch :: "site_data \<Rightarrow> string \<Rightarrow> string option" where
  "exactMatch siteData requestedPath =
     (let exactMatches = [requestedPath, cleanRequestedPath requestedPath]
      in find (\<lambda>path. map_of siteData path \<noteq> None) exactMatches)"

definition filenameMatch :: "site_data \<Rightarrow> string \<Rightarrow> string option" where
  "filenameMatch siteData requestedPath =
     (let allKeys = map fst siteData;
          fileName = pop (split CHR ''/'' (cleanRequestedPath requestedPath))
      in find (\<lambda>key. pop (split CHR ''/'' key) = fileName) allKeys)"

definition endingMatch :: "site_data \<Rightarrow> string \<Rightarrow> string option" where
  "endingMatch siteData requestedPath =
     (let allKeys = map fst siteData;
          cleanPath = cleanRequestedPath requestedPath
      in find (\<lambda>key. endsWith key cleanPath \<or> endsWith cleanPath key) allKeys)"

definition findFileInSiteData :: "site_data option \<Rightarrow> string \<Rightarrow> file_record option" where
  "findFileInSiteData currentSiteData requestedPath =
     (case currentSiteData of
        None \<Rightarrow> None
      | Some siteData \<Rightarrow>
          (case exactMatch siteData requestedPath of
             Some path \<Rightarrow> map_of siteData path
           | None \<Rightarrow>
               (case filenameMatch siteData requestedPath of
                  Some key \<Rightarrow> map_of siteData key
                | None \<Rightarrow>
                    (case endingMatch siteData requestedPath of
                       Some key \<Rightarrow> map_of siteData key
                     | None \<Rightarrow> None))))"

subsection \<open>The early-availability policy\<close>

text \<open>
  Progress values are fractions between 0 and 1. They and the thresholds are real
  numbers here, the thresholds with the exact decimal value written in the source.
\<close>

definition EARLY_PROCESS_THRESHOLD :: real where "EARLY_PROCESS_THRESHOLD = 0.95"
definition ESSENTIAL_FILES_THRESHOLD :: real where "ESSENTIAL_FILES_THRESHOLD = 0.8"
definition FILE_PROGRESS_THRESHOLD_REGULAR :: real where "FILE_PROGRESS_THRESHOLD_REGULAR = 0.8"
definition FILE_PROGRESS_THRESHOLD_ESSENTIAL :: real where "FILE_PROGRESS_THRESHOLD_ESSENTIAL = 0.9"
definition FILE_PROGRESS_THRESHOLD_MEDIA :: real where "FILE_PROGRESS_THRESHOLD_MEDIA = 0.7"
definition FILE_TIMEOUT_BASE :: real where "FILE_TIMEOUT_BASE = 5000"
definition FILE_TIMEOUT_PER_MB :: real where "FILE_TIMEOUT_PER_MB = 1000"
definition FILE_TIMEOUT_MIN :: real where "FILE_TIMEOUT_MIN = 5000"
definition FILE_TIMEOUT_MAX :: real where "FILE_TIMEOUT_MAX = 60000"
definition FILE_RETRY_TIMEOUT :: int where "FILE_RETRY_TIMEOUT = 15000"

record torrent_file =
  file_name :: string
  file_length :: int
  file_progress :: real

record torrent =
  torrent_files :: "torrent_file list"
  torrent_progress :: real

definition findIndexFile :: "torrent_file list \<Rightarrow> torrent_file option" where
  "findIndexFile files =
     find (\<lambda>file. let name = toLowerCase (file_name file)
                  in name = ''index.html'' \<or> endsWith name ''/index.html'') files"

text \<open>
  With no file at all the ratio is \<open>0 / 0\<close>, which is \<open>NaN\<close> and compares false
  with everything.
\<close>

definition hasEssentialFiles :: "torrent \<Rightarrow> bool" where
  "hasEssentialFiles t =
     (let availableFiles =
            foldl (\<lambda>n file. if file_progress file \<ge> 0.9 then n + 1 else n) (0::nat)
              (torrent_files t);
          totalFiles = length (torrent_files t)
      in if totalFiles = 0 then False
         else
           let availabilityRatio = real availableFiles / real totalFiles
           in availabilityRatio \<ge> ESSENTIAL_FILES_THRESHOLD)"

definition shouldProcessSiteEarly :: "torrent \<Rightarrow> bool" where
  "shouldProcessSiteEarly t =
     (if torrent_progress t \<ge> EARLY_PROCESS_THRESHOLD then True
      else
        let indexFile = findIndexFile (torrent_files t)
        in if indexFile \<noteq> None \<and> hasEssentialFiles t then True else False)"

subsection \<open>Early materialization\<close>

text \<open>The method \<open>isMediaFile\<close> of the page's class: by file extension.\<close>

definition mediaExtensions :: "string list" where
  "mediaExtensions =
     [''.mp4'', ''.webm'', ''.avi'', ''.mov'', ''.wmv'', ''.flv'', ''.mkv'', ''.mp3'',
      ''.wav'', ''.ogg'', ''.aac'', ''.flac'', ''.m4a'', ''.gif'']"

definition PeerWeb_isMediaFile :: "string \<Rightarrow> bool" where
  "PeerWeb_isMediaFile filename =
     list_ex (\<lambda>ext. endsWith (toLowerCase filename) ext) mediaExtensions"

definition mimeTypes :: "(string \<times> string) list" where
  "mimeTypes =
     [(''html'', ''text/html''), (''htm'', ''text/html''), (''css'', ''text/css''),
      (''js'', ''application/javascript''), (''mjs'', ''application/javascript''),
      (''json'', ''application/json''), (''xml'', ''application/xml''),
      (''txt'', ''text/plain''), (''md'', ''text/markdown''), (''pdf'', ''application/pdf''),
      (''png'', ''image/png''), (''jpg'', ''image/jpeg''), (''jpeg'', ''image/jpeg''),
      (''gif'', ''image/gif''), (''svg'', ''image/svg+xml''), (''webp'', ''image/webp''),
      (''ico'', ''image/x-icon''),
      (''woff'', ''font/woff''), (''woff2'', ''font/woff2''), (''ttf'', ''font/ttf''),
      (''otf'', ''font/otf''), (''eot'', ''application/vnd.ms-fontobject''),
      (''mp4'', ''video/mp4''), (''webm'', ''video/webm''), (''avi'', ''video/avi''),
      (''mov'', ''video/quicktime''), (''wmv'', ''video/x-ms-wmv''), (''flv'', ''video/x-flv''),
      (''mkv'', ''video/x-matroska''),
      (''mp3'', ''audio/mpeg''), (''wav'', ''audio/wav''), (''ogg'', ''audio/ogg''),
      (''aac'', ''audio/aac''), (''flac'', ''audio/flac''), (''m4a'', ''audio/mp4'')]"

definition getContentType :: "string \<Rightarrow> string" where
  "getContentType filename =
     (let ext = pop (split CHR ''.'' (toLowerCase filename))
      in case map_of mimeTypes ext of None \<Rightarrow> ''application/octet-stream'' | Some t \<Rightarrow> t)"

definition isTextFile :: "string \<Rightarrow> bool" where
  "isTextFile filename =
     list_ex (\<lambda>ext. endsWith (toLowerCase filename) ext)
       [''.html'', ''.css'', ''.js'', ''.json'', ''.txt'', ''.md'', ''.xml'', ''.svg'']"

definition calculateFileTimeout :: "torrent_file \<Rightarrow> int" where
  "calculateFileTimeout file =
     (let sizeMB = real_of_int (file_length file) / (1024 * 1024);
          timeout = FILE_TIMEOUT_BASE;
          timeout = timeout + sizeMB * FILE_TIMEOUT_PER_MB;
          timeout = max FILE_TIMEOUT_MIN timeout;
          timeout = min FILE_TIMEOUT_MAX timeout
      in \<lfloor>timeout\<rfloor>)"

text \<open>
  The comparator of the sort puts a file that is essential (here with \<open>.js\<close>) before
  one that is not, and among files alike in that a file that is not media before one
  that is. It is the order of the key below, and the sort is stable.
\<close>

definition sortEssential :: "string \<Rightarrow> bool" where
  "sortEssential name =
     (includes_str (toLowerCase name) ''index.html''
      \<or> endsWith (toLowerCase name) ''.css''
      \<or> endsWith (toLowerCase name) ''.js'')"

definition sortRank :: "torrent_file \<Rightarrow> nat" where
  "sortRank file =
     (if sortEssential (file_name file) then 0 else 2)
     + (if PeerWeb_isMediaFile (file_name file) then 1 else 0)"

text \<open>The progress a file needs before its bytes are read, as the loop computes it.\<close>

definition requiredProgress :: "string \<Rightarrow> real" where
  "requiredProgress name =
     (let isMedia = PeerWeb_isMediaFile name;
          isEssential =
            (includes_str (toLowerCase name) ''index.html'' \<or> endsWith (toLowerCase name) ''.css'')
      in if isEssential then FILE_PROGRESS_THRESHOLD_ESSENTIAL
         else if isMedia then FILE_PROGRESS_THRESHOLD_MEDIA
         else FILE_PROGRESS_THRESHOLD_REGULAR)"

text \<open>
  The state of the loop: the site data built so far, the two counters, and the log of
  the byte reads that were started (the file and the timeout given).
\<close>

record early_state =
  siteData :: site_data
  processedFiles :: nat
  failedFiles :: nat
  reads :: "(string \<times> int) list"

text \<open>\<open>siteData[name] = record\<close>: an existing key keeps its place.\<close>

definition setKey :: "site_data \<Rightarrow> string \<Rightarrow> file_record \<Rightarrow> site_data" where
  "setKey sd name r =
     (if name \<in> fst ` set sd then map (\<lambda>(k, v). if k = name then (k, r) else (k, v)) sd
      else sd @ [(name, r)])"

text \<open>
  \<open>getBuffer file timeout retry\<close> is what \<open>getFileBufferWithTimeout\<close> gives: the
  bytes, or \<open>None\<close> when it rejects (a read error or the timeout); \<open>retry\<close> tells
  the second read of the same file from the first.
\<close>

definition processFile ::
  "(torrent_file \<Rightarrow> int \<Rightarrow> bool \<Rightarrow> 8 word list option) \<Rightarrow> early_state \<Rightarrow> torrent_file
     \<Rightarrow> early_state" where
  "processFile getBuffer st file =
     (let name = file_name file;
          isMedia = PeerWeb_isMediaFile name
      in if file_progress file < requiredProgress name \<and> \<not> isMedia then st
         else
           let dynamicTimeout = calculateFileTimeout file;
               st1 = st\<lparr>reads := reads st @ [(name, dynamicTimeout)]\<rparr>
           in (case getBuffer file dynamicTimeout False of
                 Some buffer \<Rightarrow>
                   st1\<lparr>siteData := setKey (siteData st1) name
                          \<lparr>fr_content = buffer, fr_type = getContentType name,
                           fr_isText = isTextFile name, fr_isMedia = isMedia,
                           fr_size = length buffer\<rparr>,
                       processedFiles := processedFiles st1 + 1\<rparr>
               | None \<Rightarrow>
                   let st2 = st1\<lparr>failedFiles := failedFiles st1 + 1\<rparr>
                   in if includes_str (toLowerCase name) ''index.html'' then
                        (let st3 = st2\<lparr>reads := reads st2 @ [(name, FILE_RETRY_TIMEOUT)]\<rparr>
                         in case getBuffer file FILE_RETRY_TIMEOUT True of
                              Some buffer \<Rightarrow>
                                st3\<lparr>siteData := setKey (siteData st3) name
                                       \<lparr>fr_content = buffer, fr_type = getContentType name,
                                        fr_isText = isTextFile name, fr_isMedia = False,
                                        fr_size = length buffer\<rparr>,
                                    processedFiles := processedFiles st3 + 1\<rparr>
                            | None \<Rightarrow> st3)
                      else st2))"

text \<open>One pass; \<open>None\<close> when the site is not published and the next progress event is awaited.\<close>

definition processTorrentEarly ::
  "(torrent_file \<Rightarrow> int \<Rightarrow> bool \<Rightarrow> 8 word list option) \<Rightarrow> torrent \<Rightarrow> site_data option" where
  "processTorrentEarly getBuffer t =
     (let sortedFiles = sort_key sortRank (torrent_files t);
          st = foldl (processFile getBuffer)
                 \<lparr>siteData = [], processedFiles = 0, failedFiles = 0, reads = []\<rparr> sortedFiles
      in if processedFiles st = 0 then None
         else
           let hasIndex =
                 list_ex (\<lambda>name. includes_str (toLowerCase name) ''index.html'')
                   (map fst (siteData st))
           in if \<not> hasIndex then None else Some (siteData st))"

section \<open>Example inputs\<close>

text \<open>A worker with a site ready and one request in flight, and the answer to it.\<close>

definition example_pending_state :: sw_state where
  "example_pending_state =
     \<lparr>currentSiteHash = Some ''abcdef0123456789abcdef0123456789abcdef01'',
      currentSiteFiles = {''index.html''},
      pendingRequests = [''req_17_abcdefghi'' \<mapsto> \<lparr>pr_timestamp = 17, pr_range = None\<rparr>],
      mediaCache = Map.empty, resolved = [], posted = [], timers = []\<rparr>"

definition example_answer :: resource_response where
  "example_answer =
     \<lparr>rr_requestId = ''req_17_abcdefghi'',
      rr_url = ''https://site.example/peerweb-site/abcdef0123456789abcdef0123456789abcdef01/a.txt'',
      rr_data = Some [104, 105], rr_contentType = Some ''text/plain''\<rparr>"

text \<open>The environment of a round trip with the page open in one window.\<close>

definition example_env :: round_trip_env where
  "example_env =
     \<lparr>env_now = 18, env_random = ''k3j9x0q2z'',
      env_clients = Some [\<lparr>client_id = 1, client_url = ''https://site.example/''\<rparr>]\<rparr>"

text \<open>A request that spells the identifier of the ready site in upper case.\<close>

definition example_uppercase_request :: request where
  "example_uppercase_request =
     \<lparr>req_url = ''https://site.example/peerweb-site/ABCDEF0123456789ABCDEF0123456789ABCDEF01/a.txt'',
      req_parsed = \<lparr>url_pathname = ''/peerweb-site/ABCDEF0123456789ABCDEF0123456789ABCDEF01/a.txt'',
                    url_search = [], url_hash = []\<rparr>,
      req_Range = None\<rparr>"

text \<open>A request for the ready site that carries a \<open>Range\<close> header.\<close>

definition example_range_request :: request where
  "example_range_request =
     \<lparr>req_url = ''https://site.example/peerweb-site/abcdef0123456789abcdef0123456789abcdef01/clip.mp4'',
      req_parsed = \<lparr>url_pathname = ''/peerweb-site/abcdef0123456789abcdef0123456789abcdef01/clip.mp4'',
                    url_search = [], url_hash = []\<rparr>,
      req_Range = Some ''bytes=0-99''\<rparr>"

text \<open>The response of the identifier check of \<open>handlePeerWebRequest\<close>, by its two parameters.\<close>

definition wrongSiteResponse :: "string \<Rightarrow> string \<Rightarrow> response" where
  "wrongSiteResponse expected got =
     \<lparr>status = 404, statusText = [], headers = [(''Content-Type'', ''text/plain'')],
      body = TextBody (''Wrong site loaded. Expected: '' @ expected @ '', Got: '' @ got)\<rparr>"

text \<open>
  Two torrents at 85% overall with 41 of 50 files complete, the first with no index file.
\<close>

definition example_torrent_no_index :: torrent where
  "example_torrent_no_index =
     \<lparr>torrent_files =
        replicate 41 \<lparr>file_name = ''style.css'', file_length = 1000, file_progress = 1\<rparr>
        @ replicate 9 \<lparr>file_name = ''movie.mp4'', file_length = 1000000, file_progress = 0.1\<rparr>,
      torrent_progress = 0.85\<rparr>"

definition example_torrent_with_index :: torrent where
  "example_torrent_with_index =
     \<lparr>torrent_files =
        \<lparr>file_name = ''index.html'', file_length = 1000, file_progress = 1\<rparr>
        # replicate 40 \<lparr>file_name = ''style.css'', file_length = 1000, file_progress = 1\<rparr>
        @ replicate 9 \<lparr>file_name = ''movie.mp4'', file_length = 1000000, file_progress = 0.1\<rparr>,
      torrent_progress = 0.85\<rparr>"

text \<open>Three files of a torrent, an empty loop state, and a byte read that always succeeds.\<close>

definition example_script_file :: torrent_file where
  "example_script_file = \<lparr>file_name = ''app.js'', file_length = 1048576, file_progress = 0.85\<rparr>"

definition example_media_file :: torrent_file where
  "example_media_file = \<lparr>file_name = ''movie.mp4'', file_length = 1048576, file_progress = 0.1\<rparr>"

definition example_image_file :: torrent_file where
  "example_image_file = \<lparr>file_name = ''logo.png'', file_length = 1048576, file_progress = 0.5\<rparr>"

definition example_early_state :: early_state where
  "example_early_state = \<lparr>siteData = [], processedFiles = 0, failedFiles = 0, reads = []\<rparr>"

definition example_getBuffer :: "torrent_file \<Rightarrow> int \<Rightarrow> bool \<Rightarrow> 8 word list option" where
  "example_getBuffer file timeout retry = Some [1, 2, 3]"

text \<open>A request URL with no query and no fragment.\<close>

definition example_plain_url :: parsed_url where
  "example_plain_url =
     \<lparr>url_pathname = ''/peerweb-site/abcdef0123456789abcdef0123456789abcdef01/foo'',
      url_search = [], url_hash = []\<rparr>"

text \<open>A manifest whose only entry is \<open>sub/foo.html\<close>.\<close>

definition example_record :: file_record where
  "example_record =
     \<lparr>fr_content = [60, 104, 49, 62], fr_type = ''text/html'', fr_isText = True,
      fr_isMedia = False, fr_size = 4\<rparr>"

definition example_manifest :: site_data where
  "example_manifest = [(''sub/foo.html'', example_record)]"

section \<open>Facts about the string helpers\<close>

lemma split_append_sep:
  "sep \<notin> set a \<Longrightarrow> split sep (a @ sep # b) = a # split sep b"
  by (induction a) auto

lemma split_not_Nil: "split sep s \<noteq> []"
  by (induction s) (auto split: list.splits)

lemma parseInt_Nil: "parseInt [] = None"
  by (simp add: parseInt_def startsWith_def)

section \<open>Byte ranges\<close>

lemma clamp_bounds:
  fixes L :: int
  assumes "1 \<le> L"
  shows "0 \<le> max 0 (min x (L - 1))" and "max 0 (min x (L - 1)) \<le> L - 1"
    and "max 0 (min x (L - 1)) \<le> max (max 0 (min x (L - 1))) (min y (L - 1))"
    and "max (max 0 (min x (L - 1))) (min y (L - 1)) \<le> L - 1"
  using assms by linarith+

lemma parseRangeHeader_form:
  assumes "CHR ''-'' \<notin> set a"
  shows "parseRangeHeader (Some (''bytes='' @ a @ ''-'' @ b)) L =
    Some (max 0 (min (orElse (parseInt a) 0) (L - 1)),
          max (max 0 (min (orElse (parseInt a) 0) (L - 1)))
              (min (orElse (parseInt (hd (split CHR ''-'' b))) (L - 1)) (L - 1)))"
proof -
  obtain p ps where ps: "split CHR ''-'' b = p # ps"
    using split_not_Nil by (cases "split CHR ''-'' b") auto
  show ?thesis
    by (simp add: parseRangeHeader_def startsWith_def split_append_sep [OF assms] ps
        parseIntAt_def elemAt_def Let_def)
qed

lemma slice_in_range:
  "0 \<le> b \<Longrightarrow> b \<le> e \<Longrightarrow> e \<le> int (length xs) \<Longrightarrow>
   slice xs b e = take (nat (e - b)) (drop (nat b) xs)"
  by (simp add: slice_def Let_def)

lemma createMediaResponse_partial:
  assumes "isMediaFile (Some ct)" and "0 \<le> rstart" and "rstart \<le> rend"
    and "rend \<le> int (length xs) - 1"
  shows "createMediaResponse xs (Some ct) (Some (rstart, rend)) =
     \<lparr>status = 206, statusText = ''Partial Content'',
      headers =
        [(''Content-Type'', ct),
         (''Content-Length'', toString (rend - rstart + 1)),
         (''Content-Range'',
            ''bytes '' @ toString rstart @ ''-'' @ toString rend @ ''/''
              @ toString (int (length xs))),
         (''Accept-Ranges'', ''bytes''),
         (''Cache-Control'', ''public, max-age=31536000''),
         (''Access-Control-Allow-Origin'', ''*'')],
      body = BytesBody (take (nat (rend - rstart + 1)) (drop (nat rstart) xs))\<rparr>"
proof -
  have ct: "ct \<noteq> []"
    using assms(1) by (auto simp: isMediaFile_def)
  have sl: "slice xs rstart (rend + 1) = take (nat (rend - rstart + 1)) (drop (nat rstart) xs)"
    using slice_in_range [of rstart "rend + 1" xs] assms(2-4) by (simp add: algebra_simps)
  show ?thesis
    using assms(1) by (simp add: createMediaResponse_def Let_def sl strOrElse_def ct)
qed

text \<open>
  Claim C2. For a file of \<open>L \<ge> 1\<close> bytes and a header \<open>bytes=<a>-<b>\<close> (\<open>a\<close> without
  a dash), \<open>parseRangeHeader\<close> gives a range with \<open>0 \<le> start \<le> end \<le> L - 1\<close>; a
  missing end gives \<open>L - 1\<close>, a missing or non-numeric start gives \<open>0\<close>, and
  \<open>bytes=100-\<close> on 1000 bytes gives 100 to 999. For a media content type the
  response of \<open>createMediaResponse\<close> for that range has status 206, a
  \<open>Content-Length\<close> of \<open>end - start + 1\<close>, the header
  \<open>Content-Range: bytes start-end/L\<close>, and as its body the bytes from \<open>start\<close> to
  \<open>end\<close>, of that many bytes.
\<close>

theorem range_request_partial_content:
  assumes "CHR ''-'' \<notin> set a" and "uint8Array \<noteq> []" and "isMediaFile (Some ct)"
    and "L = int (length uint8Array)"
  shows "\<exists>rstart rend.
      parseRangeHeader (Some (''bytes='' @ a @ ''-'' @ b)) L = Some (rstart, rend)
    \<and> 0 \<le> rstart \<and> rstart \<le> rend \<and> rend \<le> L - 1
    \<and> (b = [] \<longrightarrow> rend = L - 1)
    \<and> (parseInt a = None \<longrightarrow> rstart = 0)
    \<and> status (createMediaResponse uint8Array (Some ct) (Some (rstart, rend))) = 206
    \<and> header (createMediaResponse uint8Array (Some ct) (Some (rstart, rend))) ''Content-Length''
        = Some (toString (rend - rstart + 1))
    \<and> header (createMediaResponse uint8Array (Some ct) (Some (rstart, rend))) ''Content-Range''
        = Some (''bytes '' @ toString rstart @ ''-'' @ toString rend @ ''/'' @ toString L)
    \<and> body (createMediaResponse uint8Array (Some ct) (Some (rstart, rend)))
        = BytesBody (take (nat (rend - rstart + 1)) (drop (nat rstart) uint8Array))
    \<and> int (length (take (nat (rend - rstart + 1)) (drop (nat rstart) uint8Array)))
        = rend - rstart + 1
    \<and> parseRangeHeader (Some ''bytes=100-'') 1000 = Some (100, 999)"
proof -
  define rstart where "rstart = max 0 (min (orElse (parseInt a) 0) (L - 1))"
  define rend where
    "rend = max rstart (min (orElse (parseInt (hd (split CHR ''-'' b))) (L - 1)) (L - 1))"
  have L: "1 \<le> L"
    using assms(2,4) by (cases uint8Array) auto
  have parsed: "parseRangeHeader (Some (''bytes='' @ a @ ''-'' @ b)) L = Some (rstart, rend)"
    unfolding rstart_def rend_def by (rule parseRangeHeader_form [OF assms(1)])
  have bounds: "0 \<le> rstart" "rstart \<le> rend" "rend \<le> L - 1"
    unfolding rstart_def rend_def using clamp_bounds [OF L] by blast+
  have missing_end: "b = [] \<longrightarrow> rend = L - 1"
    using bounds(1,2,3) L by (auto simp: rend_def parseInt_Nil orElse_def)
  have missing_start: "parseInt a = None \<longrightarrow> rstart = 0"
    using L by (auto simp: rstart_def orElse_def)
  have resp: "createMediaResponse uint8Array (Some ct) (Some (rstart, rend)) =
     \<lparr>status = 206, statusText = ''Partial Content'',
      headers =
        [(''Content-Type'', ct),
         (''Content-Length'', toString (rend - rstart + 1)),
         (''Content-Range'',
            ''bytes '' @ toString rstart @ ''-'' @ toString rend @ ''/''
              @ toString (int (length uint8Array))),
         (''Accept-Ranges'', ''bytes''),
         (''Cache-Control'', ''public, max-age=31536000''),
         (''Access-Control-Allow-Origin'', ''*'')],
      body = BytesBody (take (nat (rend - rstart + 1)) (drop (nat rstart) uint8Array))\<rparr>"
    using createMediaResponse_partial [OF assms(3) bounds(1,2)] bounds(3) assms(4) by simp
  have len: "int (length (take (nat (rend - rstart + 1)) (drop (nat rstart) uint8Array)))
      = rend - rstart + 1"
    using bounds assms(4) by simp
  have ex: "parseRangeHeader (Some ''bytes=100-'') 1000 = Some (100, 999)"
    by code_simp
  show ?thesis
    apply (rule exI [of _ rstart], rule exI [of _ rend])
    using parsed bounds missing_end missing_start len ex
    by (simp add: resp header_def assms(4))
qed

theorem range_request_partial_content_witness:
  "CHR ''-'' \<notin> set ''1'' \<and> [10, 20, 30, 40, 50 :: 8 word] \<noteq> []
   \<and> isMediaFile (Some ''video/mp4'') \<and> (5::int) = int (length [10, 20, 30, 40, 50 :: 8 word])
   \<and> parseRangeHeader (Some ''bytes=1-3'') 5 = Some (1, 3)
   \<and> body (createMediaResponse [10, 20, 30, 40, 50] (Some ''video/mp4'') (Some (1, 3)))
       = BytesBody [20, 30, 40]"
proof -
  have h1: "CHR ''-'' \<notin> set ''1''" by simp
  have h2: "[10, 20, 30, 40, 50 :: 8 word] \<noteq> []" by simp
  have h3: "isMediaFile (Some ''video/mp4'')" by (simp add: isMediaFile_def startsWith_def)
  have h4: "(5::int) = int (length [10, 20, 30, 40, 50 :: 8 word])" by simp
  have p: "parseRangeHeader (Some ''bytes=1-3'') 5 = Some (1, 3)"
    by code_simp
  from range_request_partial_content [OF h1 h2 h3 h4, of "''3''"]
  obtain rstart rend where
    "parseRangeHeader (Some (''bytes='' @ ''1'' @ ''-'' @ ''3'')) 5 = Some (rstart, rend)"
    and b: "body (createMediaResponse [10, 20, 30, 40, 50] (Some ''video/mp4'') (Some (rstart, rend)))
        = BytesBody (take (nat (rend - rstart + 1)) (drop (nat rstart) [10, 20, 30, 40, 50]))"
    by blast
  then have "rstart = 1" "rend = 3" using p by simp_all
  with b h1 h2 h3 h4 p show ?thesis by simp
qed

lemma zero_parts:
  "startsWith ''bytes=0-0'' ''bytes=''"
  "parseIntAt (split CHR ''-'' (drop 6 ''bytes=0-0'')) 0 = Some 0"
  "parseIntAt (split CHR ''-'' (drop 6 ''bytes=0-0'')) 1 = Some 0"
  by code_simp+

text \<open>
  Claim C10. For every file size \<open>L \<ge> 1\<close>, the header \<open>bytes=0-0\<close> is parsed to the
  range from 0 to \<open>L - 1\<close>: the end value 0 is falsy and is replaced by the last byte, as
  a missing end is.
\<close>

theorem parseRangeHeader_zero_end:
  "1 \<le> L \<Longrightarrow> parseRangeHeader (Some ''bytes=0-0'') L = Some (0, L - 1)"
  unfolding parseRangeHeader_def Let_def
  by (simp only: zero_parts orElse_def option.case if_True if_False simp_thms list.simps) simp

theorem parseRangeHeader_zero_end_witness:
  "(1::int) \<le> 1000 \<and> parseRangeHeader (Some ''bytes=0-0'') 1000 = Some (0, 999)"
  using parseRangeHeader_zero_end [of 1000] by simp

section \<open>The round-trip timeout\<close>

text \<open>
  Claim C8. The timeout is chosen by \<open>isMediaFile\<close> of the worker, which reads its
  argument as a content type, applied to the file path: a path that the extension
  heuristic of the page classifies as media, such as \<open>movie.mp4\<close> or \<open>song.mp3\<close>,
  gets 5000 ms, not 10000 ms.
\<close>

theorem requestTimeout_media_extension:
  "PeerWeb_isMediaFile ''movie.mp4'' \<and> requestTimeout ''movie.mp4'' = 5000
   \<and> PeerWeb_isMediaFile ''song.mp3'' \<and> requestTimeout ''song.mp3'' = 5000"
  by code_simp

section \<open>Late answers\<close>

lemma handleResourceResponse_absent:
  "pendingRequests s (rr_requestId d) = None \<Longrightarrow> handleResourceResponse d s = s"
  by (simp add: handleResourceResponse_def)

lemma handleResourceResponse_removes:
  "pendingRequests (handleResourceResponse d s) (rr_requestId d) = None"
  by (cases "pendingRequests s (rr_requestId d)")
     (auto simp: handleResourceResponse_def resolve_def Let_def)

lemma onTimeout_removes: "pendingRequests (onTimeout requestId filePath s) requestId = None"
  by (auto simp: onTimeout_def resolve_def)

text \<open>
  Claim C1. A \<open>RESOURCE_RESPONSE\<close> whose request identifier has no entry in the
  pending-request table leaves the whole state of the worker as it is: no callback is
  called, nothing is deleted, and the table and the media cache are unchanged. That is
  the case after an earlier \<open>RESOURCE_RESPONSE\<close> with the same identifier, and after
  the timeout of that request has fired.
\<close>

theorem late_resource_response_noop:
  "(pendingRequests s (rr_requestId d) = None \<longrightarrow> onMessage (RESOURCE_RESPONSE d) s = s)
   \<and> (rr_requestId d = rr_requestId e \<longrightarrow>
        onMessage (RESOURCE_RESPONSE d) (onMessage (RESOURCE_RESPONSE e) s)
          = onMessage (RESOURCE_RESPONSE e) s)
   \<and> onMessage (RESOURCE_RESPONSE d) (onTimeout (rr_requestId d) filePath s)
        = onTimeout (rr_requestId d) filePath s"
proof (intro conjI impI)
  assume "pendingRequests s (rr_requestId d) = None"
  then show "onMessage (RESOURCE_RESPONSE d) s = s"
    by (simp add: handleResourceResponse_absent)
next
  assume same: "rr_requestId d = rr_requestId e"
  have "pendingRequests (handleResourceResponse e s) (rr_requestId d) = None"
    unfolding same by (rule handleResourceResponse_removes)
  then show "onMessage (RESOURCE_RESPONSE d) (onMessage (RESOURCE_RESPONSE e) s)
      = onMessage (RESOURCE_RESPONSE e) s"
    by (simp add: handleResourceResponse_absent)
next
  show "onMessage (RESOURCE_RESPONSE d) (onTimeout (rr_requestId d) filePath s)
      = onTimeout (rr_requestId d) filePath s"
    by (simp add: handleResourceResponse_absent onTimeout_removes)
qed

theorem late_resource_response_noop_witness:
  "pendingRequests example_pending_state (rr_requestId example_answer) \<noteq> None
   \<and> map fst (resolved (onMessage (RESOURCE_RESPONSE example_answer) example_pending_state))
       = [''req_17_abcdefghi'']
   \<and> rr_requestId example_answer = rr_requestId example_answer
   \<and> onMessage (RESOURCE_RESPONSE example_answer)
        (onMessage (RESOURCE_RESPONSE example_answer) example_pending_state)
       = onMessage (RESOURCE_RESPONSE example_answer) example_pending_state
   \<and> pendingRequests (onTimeout ''req_17_abcdefghi'' ''a.txt'' example_pending_state)
        (rr_requestId example_answer) = None
   \<and> onMessage (RESOURCE_RESPONSE example_answer)
        (onTimeout ''req_17_abcdefghi'' ''a.txt'' example_pending_state)
       = onTimeout ''req_17_abcdefghi'' ''a.txt'' example_pending_state"
proof -
  have a: "pendingRequests example_pending_state (rr_requestId example_answer) \<noteq> None"
    by (simp add: example_pending_state_def example_answer_def)
  have b: "map fst (resolved (onMessage (RESOURCE_RESPONSE example_answer) example_pending_state))
       = [''req_17_abcdefghi'']"
    by (simp add: example_pending_state_def example_answer_def handleResourceResponse_def
        resolve_def Let_def)
  have c: "pendingRequests (onTimeout ''req_17_abcdefghi'' ''a.txt'' example_pending_state)
        (rr_requestId example_answer) = None"
    by (simp add: example_answer_def onTimeout_removes)
  have d: "rr_requestId example_answer = ''req_17_abcdefghi''"
    by (simp add: example_answer_def)
  from late_resource_response_noop
    [of example_pending_state example_answer example_answer "''a.txt''"]
  show ?thesis using a b c d by simp
qed

section \<open>Identifier check and round trip\<close>

lemma createMediaResponse_status:
  "status (createMediaResponse xs ct rng) = 200 \<or> status (createMediaResponse xs ct rng) = 206"
  by (auto simp: createMediaResponse_def Let_def split: option.splits)

lemma handlePeerWebRequest_ready:
  assumes "truthy (currentSiteHash s)"
    and "filter (\<lambda>part. length part > 0) (split CHR ''/'' (url_pathname (req_parsed req)))
          = ''peerweb-site'' # ident # rest"
  shows "handlePeerWebRequest resumed env req s =
     (if Some ident \<noteq> currentSiteHash s then
        (Respond (wrongSiteResponse (the (currentSiteHash s)) ident), s)
      else
        (case mediaCache s (req_url req) of
           Some cachedMedia \<Rightarrow>
             (Respond (createMediaResponse (me_data cachedMedia) (me_contentType cachedMedia)
                (if truthy (req_Range req)
                 then parseRangeHeader (req_Range req) (me_length cachedMedia) else None)), s)
         | None \<Rightarrow>
             (Awaiting (fst (requestResourceFromMainThread env (req_url req)
                (normalizeFilePath (currentSiteFiles s) (join ''/'' rest) (req_parsed req)) None s)),
              snd (requestResourceFromMainThread env (req_url req)
                (normalizeFilePath (currentSiteFiles s) (join ''/'' rest) (req_parsed req)) None s))))"
  using assms
  by (simp add: handlePeerWebRequest_def Let_def wrongSiteResponse_def split_beta
      split: option.splits)

lemma requestResourceFromMainThread_posts:
  assumes "env_clients env = Some (c # cs)"
  shows "requestResourceFromMainThread env requestUrl filePath rng s =
     (''req_'' @ toString (env_now env) @ ''_'' @ env_random env,
      s\<lparr>pendingRequests := (pendingRequests s)
           (''req_'' @ toString (env_now env) @ ''_'' @ env_random env \<mapsto>
              \<lparr>pr_timestamp = env_now env, pr_range = rng\<rparr>),
        timers := timers s @ [(''req_'' @ toString (env_now env) @ ''_'' @ env_random env,
           filePath, requestTimeout filePath)],
        posted := posted s @
          [(client_id
              (case filter (\<lambda>w. client_url w \<noteq> []
                      \<and> \<not> includes_str (client_url w) ''/peerweb-site/'') (c # cs) of
                 [] \<Rightarrow> c | m # ms \<Rightarrow> m),
            \<lparr>rq_url = requestUrl, rq_filePath = filePath,
             rq_requestId = ''req_'' @ toString (env_now env) @ ''_'' @ env_random env,
             rq_range = rng\<rparr>)]\<rparr>)"
proof (cases "filter (\<lambda>w. client_url w \<noteq> [] \<and> \<not> includes_str (client_url w) ''/peerweb-site/'')
    (c # cs)")
  case Nil
  then show ?thesis
    using assms by (simp add: requestResourceFromMainThread_def Let_def)
next
  case (Cons m ms)
  then show ?thesis
    using assms by (simp add: requestResourceFromMainThread_def Let_def)
qed

lemma requestResourceFromMainThread_no_client:
  assumes "env_clients env = None \<or> env_clients env = Some []"
  shows "requestResourceFromMainThread env requestUrl filePath rng s =
     (''req_'' @ toString (env_now env) @ ''_'' @ env_random env,
      s\<lparr>pendingRequests := (pendingRequests s)
           (''req_'' @ toString (env_now env) @ ''_'' @ env_random env := None),
        timers := timers s @ [(''req_'' @ toString (env_now env) @ ''_'' @ env_random env,
           filePath, requestTimeout filePath)],
        resolved := resolved s @
          [(''req_'' @ toString (env_now env) @ ''_'' @ env_random env,
            createNavigationFallback filePath)]\<rparr>)"
  using assms by (auto simp: requestResourceFromMainThread_def Let_def resolve_def)

text \<open>
  Claim C3, as amended. The worker compares the identifier segment with the ready
  identifier by strict string equality. With a site ready, a request whose identifier
  differs from it, also when only in letter case, is answered with the 404 "wrong site
  loaded" response. A request whose identifier is the same string is resolved: on a hit
  of the media cache it is answered from the cache with status 200 or 206; on a miss with
  a window client open, a pending entry is stored under a fresh request identifier, the
  timer is armed and a \<open>RESOURCE_REQUEST\<close> for the normalized path is posted to the
  first client that is not an iframe of the site, or else to the first client; on a miss
  with no window client the request is resolved at once with the navigation fallback and
  nothing is posted.
\<close>

theorem identifier_match_is_exact:
  assumes "truthy (currentSiteHash s)"
    and "filter (\<lambda>part. length part > 0) (split CHR ''/'' (url_pathname (req_parsed req)))
          = ''peerweb-site'' # ident # rest"
  shows "(Some ident \<noteq> currentSiteHash s \<longrightarrow>
            handlePeerWebRequest resumed env req s
              = (Respond (wrongSiteResponse (the (currentSiteHash s)) ident), s))
       \<and> (currentSiteHash s = Some (toLowerCase ident) \<and> toLowerCase ident \<noteq> ident \<longrightarrow>
            handlePeerWebRequest resumed env req s
              = (Respond (wrongSiteResponse (toLowerCase ident) ident), s))
       \<and> (Some ident = currentSiteHash s \<longrightarrow>
            (case fst (handlePeerWebRequest resumed env req s) of
               Respond r \<Rightarrow>
                 mediaCache s (req_url req) \<noteq> None \<and> (status r = 200 \<or> status r = 206)
             | Awaiting requestId \<Rightarrow>
                 mediaCache s (req_url req) = None
                 \<and> requestId = ''req_'' @ toString (env_now env) @ ''_'' @ env_random env))
       \<and> (Some ident = currentSiteHash s \<longrightarrow>
            (\<forall>cachedMedia. mediaCache s (req_url req) = Some cachedMedia \<longrightarrow>
               handlePeerWebRequest resumed env req s =
                 (Respond (createMediaResponse (me_data cachedMedia) (me_contentType cachedMedia)
                    (if truthy (req_Range req)
                     then parseRangeHeader (req_Range req) (me_length cachedMedia) else None)),
                  s)))
       \<and> (Some ident = currentSiteHash s \<and> mediaCache s (req_url req) = None \<longrightarrow>
            (\<forall>c cs. env_clients env = Some (c # cs) \<longrightarrow>
               handlePeerWebRequest resumed env req s =
                 (Awaiting (''req_'' @ toString (env_now env) @ ''_'' @ env_random env),
                  s\<lparr>pendingRequests := (pendingRequests s)
                       (''req_'' @ toString (env_now env) @ ''_'' @ env_random env \<mapsto>
                          \<lparr>pr_timestamp = env_now env, pr_range = None\<rparr>),
                    timers := timers s @
                      [(''req_'' @ toString (env_now env) @ ''_'' @ env_random env,
                        normalizeFilePath (currentSiteFiles s) (join ''/'' rest) (req_parsed req),
                        requestTimeout
                          (normalizeFilePath (currentSiteFiles s) (join ''/'' rest)
                             (req_parsed req)))],
                    posted := posted s @
                      [(client_id
                          (case filter (\<lambda>w. client_url w \<noteq> []
                                  \<and> \<not> includes_str (client_url w) ''/peerweb-site/'') (c # cs) of
                             [] \<Rightarrow> c | m # ms \<Rightarrow> m),
                        \<lparr>rq_url = req_url req,
                         rq_filePath =
                           normalizeFilePath (currentSiteFiles s) (join ''/'' rest) (req_parsed req),
                         rq_requestId = ''req_'' @ toString (env_now env) @ ''_'' @ env_random env,
                         rq_range = None\<rparr>)]\<rparr>)))
       \<and> (Some ident = currentSiteHash s \<and> mediaCache s (req_url req) = None
            \<and> (env_clients env = None \<or> env_clients env = Some []) \<longrightarrow>
            handlePeerWebRequest resumed env req s =
              (Awaiting (''req_'' @ toString (env_now env) @ ''_'' @ env_random env),
               s\<lparr>pendingRequests := (pendingRequests s)
                    (''req_'' @ toString (env_now env) @ ''_'' @ env_random env := None),
                 timers := timers s @
                   [(''req_'' @ toString (env_now env) @ ''_'' @ env_random env,
                     normalizeFilePath (currentSiteFiles s) (join ''/'' rest) (req_parsed req),
                     requestTimeout
                       (normalizeFilePath (currentSiteFiles s) (join ''/'' rest)
                          (req_parsed req)))],
                 resolved := resolved s @
                   [(''req_'' @ toString (env_now env) @ ''_'' @ env_random env,
                     createNavigationFallback
                       (normalizeFilePath (currentSiteFiles s) (join ''/'' rest)
                          (req_parsed req)))]\<rparr>))"
proof (intro conjI impI allI)
  assume "Some ident \<noteq> currentSiteHash s"
  then show "handlePeerWebRequest resumed env req s
      = (Respond (wrongSiteResponse (the (currentSiteHash s)) ident), s)"
    by (simp add: handlePeerWebRequest_ready [OF assms])
next
  assume "currentSiteHash s = Some (toLowerCase ident) \<and> toLowerCase ident \<noteq> ident"
  then show "handlePeerWebRequest resumed env req s
      = (Respond (wrongSiteResponse (toLowerCase ident) ident), s)"
    by (auto simp: handlePeerWebRequest_ready [OF assms])
next
  assume "Some ident = currentSiteHash s"
  then show "case fst (handlePeerWebRequest resumed env req s) of
      Respond r \<Rightarrow> mediaCache s (req_url req) \<noteq> None \<and> (status r = 200 \<or> status r = 206)
    | Awaiting requestId \<Rightarrow>
        mediaCache s (req_url req) = None
        \<and> requestId = ''req_'' @ toString (env_now env) @ ''_'' @ env_random env"
    using createMediaResponse_status
    by (auto simp: handlePeerWebRequest_ready [OF assms] requestResourceFromMainThread_def Let_def
        split: option.splits)
next
  fix cachedMedia
  assume "Some ident = currentSiteHash s" and "mediaCache s (req_url req) = Some cachedMedia"
  then show "handlePeerWebRequest resumed env req s =
      (Respond (createMediaResponse (me_data cachedMedia) (me_contentType cachedMedia)
         (if truthy (req_Range req)
          then parseRangeHeader (req_Range req) (me_length cachedMedia) else None)), s)"
    by (simp add: handlePeerWebRequest_ready [OF assms])
next
  fix c cs
  assume a: "Some ident = currentSiteHash s \<and> mediaCache s (req_url req) = None"
    and cl: "env_clients env = Some (c # cs)"
  show "handlePeerWebRequest resumed env req s =
      (Awaiting (''req_'' @ toString (env_now env) @ ''_'' @ env_random env),
       s\<lparr>pendingRequests := (pendingRequests s)
            (''req_'' @ toString (env_now env) @ ''_'' @ env_random env \<mapsto>
               \<lparr>pr_timestamp = env_now env, pr_range = None\<rparr>),
         timers := timers s @
           [(''req_'' @ toString (env_now env) @ ''_'' @ env_random env,
             normalizeFilePath (currentSiteFiles s) (join ''/'' rest) (req_parsed req),
             requestTimeout
               (normalizeFilePath (currentSiteFiles s) (join ''/'' rest) (req_parsed req)))],
         posted := posted s @
           [(client_id
               (case filter (\<lambda>w. client_url w \<noteq> []
                       \<and> \<not> includes_str (client_url w) ''/peerweb-site/'') (c # cs) of
                  [] \<Rightarrow> c | m # ms \<Rightarrow> m),
             \<lparr>rq_url = req_url req,
              rq_filePath =
                normalizeFilePath (currentSiteFiles s) (join ''/'' rest) (req_parsed req),
              rq_requestId = ''req_'' @ toString (env_now env) @ ''_'' @ env_random env,
              rq_range = None\<rparr>)]\<rparr>)"
    using a unfolding handlePeerWebRequest_ready [OF assms]
      requestResourceFromMainThread_posts [OF cl]
    by simp
next
  assume a: "Some ident = currentSiteHash s \<and> mediaCache s (req_url req) = None
      \<and> (env_clients env = None \<or> env_clients env = Some [])"
  then have nc: "env_clients env = None \<or> env_clients env = Some []"
    by blast
  show "handlePeerWebRequest resumed env req s =
      (Awaiting (''req_'' @ toString (env_now env) @ ''_'' @ env_random env),
       s\<lparr>pendingRequests := (pendingRequests s)
            (''req_'' @ toString (env_now env) @ ''_'' @ env_random env := None),
         timers := timers s @
           [(''req_'' @ toString (env_now env) @ ''_'' @ env_random env,
             normalizeFilePath (currentSiteFiles s) (join ''/'' rest) (req_parsed req),
             requestTimeout
               (normalizeFilePath (currentSiteFiles s) (join ''/'' rest) (req_parsed req)))],
         resolved := resolved s @
           [(''req_'' @ toString (env_now env) @ ''_'' @ env_random env,
             createNavigationFallback
               (normalizeFilePath (currentSiteFiles s) (join ''/'' rest) (req_parsed req)))]\<rparr>)"
    using a unfolding handlePeerWebRequest_ready [OF assms]
      requestResourceFromMainThread_no_client [OF nc]
    by simp
qed

text \<open>The path segments of the two example requests.\<close>

lemma example_pathParts:
  "filter (\<lambda>part. length part > 0)
     (split CHR ''/'' (url_pathname (req_parsed example_uppercase_request)))
   = [''peerweb-site'', ''ABCDEF0123456789ABCDEF0123456789ABCDEF01'', ''a.txt'']"
  "filter (\<lambda>part. length part > 0)
     (split CHR ''/'' (url_pathname (req_parsed example_range_request)))
   = [''peerweb-site'', ''abcdef0123456789abcdef0123456789abcdef01'', ''clip.mp4'']"
  by code_simp+

lemma example_lower:
  "toLowerCase ''ABCDEF0123456789ABCDEF0123456789ABCDEF01''
     = ''abcdef0123456789abcdef0123456789abcdef01''"
  by code_simp

text \<open>
  The claim C3 as stated fails: the ready identifier is the lower-case form of the
  requested one, and the answer is the 404 of the identifier mismatch.
\<close>

theorem uppercase_identifier_counterexample:
  "currentSiteHash example_pending_state = Some ''abcdef0123456789abcdef0123456789abcdef01''
   \<and> toLowerCase ''ABCDEF0123456789ABCDEF0123456789ABCDEF01''
       = ''abcdef0123456789abcdef0123456789abcdef01''
   \<and> fst (handlePeerWebRequest example_pending_state example_env example_uppercase_request
        example_pending_state)
       = Respond \<lparr>status = 404, statusText = [], headers = [(''Content-Type'', ''text/plain'')],
           body = TextBody (''Wrong site loaded. Expected: ''
             @ ''abcdef0123456789abcdef0123456789abcdef01'' @ '', Got: ''
             @ ''ABCDEF0123456789ABCDEF0123456789ABCDEF01'')\<rparr>"
proof -
  have t: "truthy (currentSiteHash example_pending_state)"
    by (simp add: example_pending_state_def truthy_def)
  show ?thesis
    using handlePeerWebRequest_ready [OF t example_pathParts(1)] example_lower
    by (simp add: example_pending_state_def wrongSiteResponse_def)
qed

lemma example_round_trip_facts:
  "toString 18 = ''18''"
  "toString (env_now example_env) = ''18''"
  "env_random example_env = ''k3j9x0q2z''"
  "normalizeFilePath (currentSiteFiles example_pending_state) (join ''/'' [''clip.mp4''])
     (req_parsed example_range_request) = ''clip.mp4''"
  "client_id
     (case filter (\<lambda>w. client_url w \<noteq> [] \<and> \<not> includes_str (client_url w) ''/peerweb-site/'')
        [\<lparr>client_id = 1, client_url = ''https://site.example/''\<rparr>] of
        [] \<Rightarrow> \<lparr>client_id = 1, client_url = ''https://site.example/''\<rparr> | m # ms \<Rightarrow> m) = 1"
  by code_simp+

theorem identifier_match_is_exact_witness:
  "truthy (currentSiteHash example_pending_state)
   \<and> filter (\<lambda>part. length part > 0)
        (split CHR ''/'' (url_pathname (req_parsed example_range_request)))
       = [''peerweb-site'', ''abcdef0123456789abcdef0123456789abcdef01'', ''clip.mp4'']
   \<and> Some ''abcdef0123456789abcdef0123456789abcdef01'' = currentSiteHash example_pending_state
   \<and> mediaCache example_pending_state (req_url example_range_request) = None
   \<and> env_clients example_env = Some [\<lparr>client_id = 1, client_url = ''https://site.example/''\<rparr>]
   \<and> fst (handlePeerWebRequest example_pending_state example_env example_range_request
        example_pending_state) = Awaiting ''req_18_k3j9x0q2z''
   \<and> posted (snd (handlePeerWebRequest example_pending_state example_env example_range_request
        example_pending_state))
       = [(1, \<lparr>rq_url = req_url example_range_request, rq_filePath = ''clip.mp4'',
               rq_requestId = ''req_18_k3j9x0q2z'', rq_range = None\<rparr>)]
   \<and> pendingRequests (snd (handlePeerWebRequest example_pending_state example_env
        example_range_request example_pending_state)) ''req_18_k3j9x0q2z''
       = Some \<lparr>pr_timestamp = 18, pr_range = None\<rparr>"
proof -
  have t: "truthy (currentSiteHash example_pending_state)"
    by (simp add: example_pending_state_def truthy_def)
  have h: "Some ''abcdef0123456789abcdef0123456789abcdef01'' = currentSiteHash example_pending_state"
    by (simp add: example_pending_state_def)
  have m: "mediaCache example_pending_state (req_url example_range_request) = None"
    by (simp add: example_pending_state_def)
  have cl: "env_clients example_env = Some [\<lparr>client_id = 1, client_url = ''https://site.example/''\<rparr>]"
    by (simp add: example_env_def)
  have n: "env_now example_env = 18"
    by (simp add: example_env_def)
  have p: "posted example_pending_state = []"
    by (simp add: example_pending_state_def)
  from identifier_match_is_exact [OF t example_pathParts(2),
      of example_pending_state example_env]
  have "\<forall>c cs. env_clients example_env = Some (c # cs) \<longrightarrow>
      handlePeerWebRequest example_pending_state example_env example_range_request
        example_pending_state =
      (Awaiting (''req_'' @ toString (env_now example_env) @ ''_'' @ env_random example_env),
       example_pending_state\<lparr>pendingRequests := (pendingRequests example_pending_state)
            (''req_'' @ toString (env_now example_env) @ ''_'' @ env_random example_env \<mapsto>
               \<lparr>pr_timestamp = env_now example_env, pr_range = None\<rparr>),
         timers := timers example_pending_state @
           [(''req_'' @ toString (env_now example_env) @ ''_'' @ env_random example_env,
             normalizeFilePath (currentSiteFiles example_pending_state) (join ''/'' [''clip.mp4''])
               (req_parsed example_range_request),
             requestTimeout
               (normalizeFilePath (currentSiteFiles example_pending_state)
                  (join ''/'' [''clip.mp4'']) (req_parsed example_range_request)))],
         posted := posted example_pending_state @
           [(client_id
               (case filter (\<lambda>w. client_url w \<noteq> []
                       \<and> \<not> includes_str (client_url w) ''/peerweb-site/'') (c # cs) of
                  [] \<Rightarrow> c | m # ms \<Rightarrow> m),
             \<lparr>rq_url = req_url example_range_request,
              rq_filePath =
                normalizeFilePath (currentSiteFiles example_pending_state)
                  (join ''/'' [''clip.mp4'']) (req_parsed example_range_request),
              rq_requestId = ''req_'' @ toString (env_now example_env) @ ''_''
                @ env_random example_env,
              rq_range = None\<rparr>)]\<rparr>)"
    using h m by blast
  from this [rule_format, OF cl]
  have run: "handlePeerWebRequest example_pending_state example_env example_range_request
        example_pending_state =
      (Awaiting ''req_18_k3j9x0q2z'',
       example_pending_state\<lparr>pendingRequests := (pendingRequests example_pending_state)
            (''req_18_k3j9x0q2z'' \<mapsto> \<lparr>pr_timestamp = 18, pr_range = None\<rparr>),
         timers := timers example_pending_state @
           [(''req_18_k3j9x0q2z'', ''clip.mp4'', requestTimeout ''clip.mp4'')],
         posted :=
           [(1, \<lparr>rq_url = req_url example_range_request, rq_filePath = ''clip.mp4'',
                 rq_requestId = ''req_18_k3j9x0q2z'', rq_range = None\<rparr>)]\<rparr>)"
    unfolding example_round_trip_facts n p by simp
  show ?thesis
    unfolding run using t h m cl example_pathParts(2) by simp
qed

lemma requestResourceFromMainThread_client:
  assumes "env_clients env = Some (c # cs)"
  shows "\<exists>cid. requestResourceFromMainThread env requestUrl filePath rng s =
     (''req_'' @ toString (env_now env) @ ''_'' @ env_random env,
      s\<lparr>pendingRequests := (pendingRequests s)
           (''req_'' @ toString (env_now env) @ ''_'' @ env_random env \<mapsto>
              \<lparr>pr_timestamp = env_now env, pr_range = rng\<rparr>),
        timers := timers s @ [(''req_'' @ toString (env_now env) @ ''_'' @ env_random env,
           filePath, requestTimeout filePath)],
        posted := posted s @ [(cid,
           \<lparr>rq_url = requestUrl, rq_filePath = filePath,
            rq_requestId = ''req_'' @ toString (env_now env) @ ''_'' @ env_random env,
            rq_range = rng\<rparr>)]\<rparr>)"
proof (cases "filter (\<lambda>c. client_url c \<noteq> [] \<and> \<not> includes_str (client_url c) ''/peerweb-site/'')
    (c # cs)")
  case Nil
  then show ?thesis
    using assms
    by (intro exI [of _ "client_id c"]) (simp add: requestResourceFromMainThread_def Let_def)
next
  case (Cons m ms)
  then show ?thesis
    using assms
    by (intro exI [of _ "client_id m"]) (simp add: requestResourceFromMainThread_def Let_def)
qed

text \<open>
  Claim C9, as amended. A site-scoped request that misses the media cache is forwarded
  with no byte range, whatever its \<open>Range\<close> header: the pending entry has
  \<open>range = null\<close>, and the \<open>RESOURCE_REQUEST\<close> posted to the window client
  carries the same \<open>null\<close>.
\<close>

theorem round_trip_range_is_null:
  assumes "truthy (currentSiteHash s)"
    and "handlePeerWebRequest resumed env req s = (Awaiting requestId, s')"
    and "env_clients env = Some (c # cs)"
  shows "\<exists>cid filePath.
       pendingRequests s' requestId = Some \<lparr>pr_timestamp = env_now env, pr_range = None\<rparr>
     \<and> posted s' = posted s @ [(cid,
          \<lparr>rq_url = req_url req, rq_filePath = filePath, rq_requestId = requestId,
           rq_range = None\<rparr>)]"
proof -
  let ?parts = "filter (\<lambda>part. length part > 0) (split CHR ''/'' (url_pathname (req_parsed req)))"
  have shape: "\<not> (length ?parts < 2 \<or> hd ?parts \<noteq> ''peerweb-site'')"
  proof
    assume "length ?parts < 2 \<or> hd ?parts \<noteq> ''peerweb-site''"
    then have "fst (handlePeerWebRequest resumed env req s) =
        Respond \<lparr>status = 400, statusText = [], headers = [],
          body = TextBody ''Invalid PeerWeb URL''\<rparr>"
      unfolding handlePeerWebRequest_def Let_def by (simp only: if_True fst_conv)
    with assms(2) show False by simp
  qed
  then obtain ident rest where parts: "?parts = ''peerweb-site'' # ident # rest"
    by (cases ?parts; cases "tl ?parts") auto
  let ?filePath = "normalizeFilePath (currentSiteFiles s) (join ''/'' rest) (req_parsed req)"
  have "Some ident = currentSiteHash s" and miss: "mediaCache s (req_url req) = None"
    using assms(2) unfolding handlePeerWebRequest_ready [OF assms(1) parts]
    by (auto split: if_splits option.splits)
  then have run: "(Awaiting requestId, s') =
      (Awaiting (fst (requestResourceFromMainThread env (req_url req) ?filePath None s)),
       snd (requestResourceFromMainThread env (req_url req) ?filePath None s))"
    using assms(2) unfolding handlePeerWebRequest_ready [OF assms(1) parts] by simp
  from requestResourceFromMainThread_client [OF assms(3), of "req_url req" ?filePath None s]
  obtain cid where "requestResourceFromMainThread env (req_url req) ?filePath None s =
     (''req_'' @ toString (env_now env) @ ''_'' @ env_random env,
      s\<lparr>pendingRequests := (pendingRequests s)
           (''req_'' @ toString (env_now env) @ ''_'' @ env_random env \<mapsto>
              \<lparr>pr_timestamp = env_now env, pr_range = None\<rparr>),
        timers := timers s @ [(''req_'' @ toString (env_now env) @ ''_'' @ env_random env,
           ?filePath, requestTimeout ?filePath)],
        posted := posted s @ [(cid,
           \<lparr>rq_url = req_url req, rq_filePath = ?filePath,
            rq_requestId = ''req_'' @ toString (env_now env) @ ''_'' @ env_random env,
            rq_range = None\<rparr>)]\<rparr>)"
    by blast
  with run show ?thesis by auto
qed

text \<open>
  The claim C9 as stated fails: the request carries \<open>Range: bytes=0-99\<close>, and both
  the stored entry and the posted message have no range.
\<close>

theorem range_header_not_stored_counterexample:
  "req_Range example_range_request = Some ''bytes=0-99''
   \<and> mediaCache example_pending_state (req_url example_range_request) = None
   \<and> fst (handlePeerWebRequest example_pending_state example_env example_range_request
        example_pending_state) = Awaiting ''req_18_k3j9x0q2z''
   \<and> map_option pr_range
        (pendingRequests (snd (handlePeerWebRequest example_pending_state example_env
           example_range_request example_pending_state)) ''req_18_k3j9x0q2z'') = Some None
   \<and> map (\<lambda>(cid, m). (rq_requestId m, rq_range m))
        (posted (snd (handlePeerWebRequest example_pending_state example_env
           example_range_request example_pending_state))) = [(''req_18_k3j9x0q2z'', None)]"
proof -
  have t: "truthy (currentSiteHash example_pending_state)"
    by (simp add: example_pending_state_def truthy_def)
  have h: "Some ''abcdef0123456789abcdef0123456789abcdef01'' = currentSiteHash example_pending_state"
    by (simp add: example_pending_state_def)
  have m: "mediaCache example_pending_state (req_url example_range_request) = None"
    by (simp add: example_pending_state_def)
  have ts: "toString (env_now example_env) = ''18''" "env_random example_env = ''k3j9x0q2z''"
    by code_simp+
  have cl: "env_clients example_env = Some [\<lparr>client_id = 1, client_url = ''https://site.example/''\<rparr>]"
    by (simp add: example_env_def)
  have r: "req_Range example_range_request = Some ''bytes=0-99''"
    by (simp add: example_range_request_def)
  have p: "posted example_pending_state = []"
    by (simp add: example_pending_state_def)
  obtain cid where
    "requestResourceFromMainThread example_env (req_url example_range_request)
       (normalizeFilePath (currentSiteFiles example_pending_state) (join ''/'' [''clip.mp4''])
          (req_parsed example_range_request)) None example_pending_state
     = (''req_'' @ toString (env_now example_env) @ ''_'' @ env_random example_env,
        example_pending_state\<lparr>pendingRequests := (pendingRequests example_pending_state)
           (''req_'' @ toString (env_now example_env) @ ''_'' @ env_random example_env \<mapsto>
              \<lparr>pr_timestamp = env_now example_env, pr_range = None\<rparr>),
        timers := timers example_pending_state
          @ [(''req_'' @ toString (env_now example_env) @ ''_'' @ env_random example_env,
           normalizeFilePath (currentSiteFiles example_pending_state) (join ''/'' [''clip.mp4''])
             (req_parsed example_range_request),
           requestTimeout (normalizeFilePath (currentSiteFiles example_pending_state)
             (join ''/'' [''clip.mp4'']) (req_parsed example_range_request)))],
        posted := posted example_pending_state @ [(cid,
           \<lparr>rq_url = req_url example_range_request,
            rq_filePath = normalizeFilePath (currentSiteFiles example_pending_state)
              (join ''/'' [''clip.mp4'']) (req_parsed example_range_request),
            rq_requestId = ''req_'' @ toString (env_now example_env) @ ''_'' @ env_random example_env,
            rq_range = None\<rparr>)]\<rparr>)"
    using requestResourceFromMainThread_client [OF cl] by blast
  then show ?thesis
    using handlePeerWebRequest_ready [OF t example_pathParts(2), of example_pending_state example_env]
      h m ts r p
    by simp
qed

theorem round_trip_range_is_null_witness:
  "truthy (currentSiteHash example_pending_state)
   \<and> env_clients example_env = Some [\<lparr>client_id = 1, client_url = ''https://site.example/''\<rparr>]
   \<and> req_Range example_range_request = Some ''bytes=0-99''
   \<and> fst (handlePeerWebRequest example_pending_state example_env example_range_request
        example_pending_state) = Awaiting ''req_18_k3j9x0q2z''
   \<and> pendingRequests (snd (handlePeerWebRequest example_pending_state example_env
        example_range_request example_pending_state)) ''req_18_k3j9x0q2z''
       = Some \<lparr>pr_timestamp = 18, pr_range = None\<rparr>"
proof -
  have t: "truthy (currentSiteHash example_pending_state)"
    by (simp add: example_pending_state_def truthy_def)
  have cl: "env_clients example_env = Some [\<lparr>client_id = 1, client_url = ''https://site.example/''\<rparr>]"
    by (simp add: example_env_def)
  have r: "req_Range example_range_request = Some ''bytes=0-99''"
    by (simp add: example_range_request_def)
  have n: "env_now example_env = 18"
    by (simp add: example_env_def)
  have h: "Some ''abcdef0123456789abcdef0123456789abcdef01'' = currentSiteHash example_pending_state"
    by (simp add: example_pending_state_def)
  have m: "mediaCache example_pending_state (req_url example_range_request) = None"
    by (simp add: example_pending_state_def)
  have ts: "toString (env_now example_env) = ''18''" "env_random example_env = ''k3j9x0q2z''"
    by code_simp+
  have f: "fst (handlePeerWebRequest example_pending_state example_env example_range_request
        example_pending_state) = Awaiting ''req_18_k3j9x0q2z''"
    using handlePeerWebRequest_ready [OF t example_pathParts(2), of example_pending_state example_env]
      h m ts by (simp add: requestResourceFromMainThread_def Let_def)
  have run: "handlePeerWebRequest example_pending_state example_env example_range_request
        example_pending_state
      = (Awaiting ''req_18_k3j9x0q2z'',
         snd (handlePeerWebRequest example_pending_state example_env example_range_request
           example_pending_state))"
    using f by (metis prod.collapse)
  from round_trip_range_is_null [OF t run cl]
  show ?thesis using t cl r f n by auto
qed

section \<open>The early-processing decision\<close>

lemma foldl_count:
  "foldl (\<lambda>n x. if P x then n + 1 else n) (k::nat) xs = k + length (filter P xs)"
  by (induction xs arbitrary: k) auto

lemma hasEssentialFiles_ratio:
  "hasEssentialFiles t \<longleftrightarrow>
     torrent_files t \<noteq> []
     \<and> real (length (filter (\<lambda>file. file_progress file \<ge> 0.9) (torrent_files t)))
         / real (length (torrent_files t)) \<ge> 0.8"
  by (simp add: hasEssentialFiles_def Let_def foldl_count ESSENTIAL_FILES_THRESHOLD_def)

lemma findIndexFile_found:
  "findIndexFile files \<noteq> None \<longleftrightarrow>
     (\<exists>file \<in> set files. toLowerCase (file_name file) = ''index.html''
        \<or> endsWith (toLowerCase (file_name file)) ''/index.html'')"
  by (auto simp: findIndexFile_def find_None_iff Let_def)

text \<open>
  Claim C4, as amended. Early processing is triggered exactly when the overall
  completion is at least 0.95, or when the torrent has an index file (a file named
  \<open>index.html\<close>, at the top or in a directory, in any letter case) and the fraction
  of files that are each at least 90% complete is at least 0.8.
\<close>

theorem shouldProcessSiteEarly_iff:
  "shouldProcessSiteEarly t \<longleftrightarrow>
     torrent_progress t \<ge> 0.95
     \<or> ((\<exists>file \<in> set (torrent_files t). toLowerCase (file_name file) = ''index.html''
            \<or> endsWith (toLowerCase (file_name file)) ''/index.html'')
        \<and> real (length (filter (\<lambda>file. file_progress file \<ge> 0.9) (torrent_files t)))
            / real (length (torrent_files t)) \<ge> 0.8)"
proof -
  have "(\<exists>file \<in> set (torrent_files t). toLowerCase (file_name file) = ''index.html''
            \<or> endsWith (toLowerCase (file_name file)) ''/index.html'')
        \<Longrightarrow> torrent_files t \<noteq> []"
    by auto
  then show ?thesis
    unfolding shouldProcessSiteEarly_def Let_def EARLY_PROCESS_THRESHOLD_def
      hasEssentialFiles_ratio findIndexFile_found
    by auto
qed

lemma example_no_index_facts:
  "torrent_progress example_torrent_no_index = 0.85"
  "length (torrent_files example_torrent_no_index) = 50"
  "length (filter (\<lambda>file. file_progress file \<ge> 0.9) (torrent_files example_torrent_no_index)) = 41"
  by (simp_all add: example_torrent_no_index_def)

lemma example_no_index_file: "findIndexFile (torrent_files example_torrent_no_index) = None"
  by (auto simp: example_torrent_no_index_def findIndexFile_def find_None_iff Let_def
      toLowerCase_def toLowerCaseChar_def endsWith_def)

lemma example_with_index_facts:
  "torrent_progress example_torrent_with_index = 0.85"
  "length (torrent_files example_torrent_with_index) = 50"
  "length (filter (\<lambda>file. file_progress file \<ge> 0.9) (torrent_files example_torrent_with_index)) = 41"
  by (simp_all add: example_torrent_with_index_def)

lemma example_with_index_file:
  "\<exists>file \<in> set (torrent_files example_torrent_with_index).
     toLowerCase (file_name file) = ''index.html''
     \<or> endsWith (toLowerCase (file_name file)) ''/index.html''"
  by (simp add: example_torrent_with_index_def toLowerCase_def toLowerCaseChar_def)

text \<open>
  The claim C4 as stated fails: overall progress 0.85, a ratio of ready files of 0.82,
  no index file, and no early processing.
\<close>

theorem early_processing_without_index_counterexample:
  "torrent_progress example_torrent_no_index = 0.85
   \<and> real (length (filter (\<lambda>file. file_progress file \<ge> 0.9)
         (torrent_files example_torrent_no_index)))
       / real (length (torrent_files example_torrent_no_index)) = 0.82
   \<and> \<not> shouldProcessSiteEarly example_torrent_no_index"
  unfolding shouldProcessSiteEarly_def Let_def EARLY_PROCESS_THRESHOLD_def
    example_no_index_facts example_no_index_file
  by simp

theorem shouldProcessSiteEarly_iff_witness:
  "torrent_progress example_torrent_with_index = 0.85
   \<and> real (length (filter (\<lambda>file. file_progress file \<ge> 0.9)
         (torrent_files example_torrent_with_index)))
       / real (length (torrent_files example_torrent_with_index)) = 0.82
   \<and> shouldProcessSiteEarly example_torrent_with_index"
  using example_with_index_file
  unfolding shouldProcessSiteEarly_iff [of example_torrent_with_index] example_with_index_facts
  by simp

section \<open>Thresholds of early materialization\<close>

lemma endsWith_last: "endsWith s p \<Longrightarrow> p \<noteq> [] \<Longrightarrow> last s = last p"
  unfolding endsWith_def by (metis last_drop length_drop diff_diff_cancel length_greater_0_conv
      diff_less_mono2 diff_is_0_eq' not_less zero_less_diff le_antisym drop_all list.size(3))

lemma endsWith_append: "endsWith s p \<longleftrightarrow> (\<exists>a. s = a @ p)"
proof
  assume "endsWith s p"
  then have "s = take (length s - length p) s @ p"
    by (metis append_take_drop_id endsWith_def)
  then show "\<exists>a. s = a @ p" ..
next
  assume "\<exists>a. s = a @ p"
  then show "endsWith s p" by (auto simp: endsWith_def)
qed

lemma js_not_css: "endsWith s ''.js'' \<Longrightarrow> \<not> endsWith s ''.css''"
  unfolding endsWith_append by (auto simp: append_eq_append_conv2 append_eq_Cons_conv Cons_eq_append_conv)

lemma js_not_media: "endsWith (toLowerCase name) ''.js'' \<Longrightarrow> \<not> PeerWeb_isMediaFile name"
  unfolding PeerWeb_isMediaFile_def mediaExtensions_def
  by (auto dest!: endsWith_last)

lemma calculateFileTimeout_1MB:
  "file_length file = 1048576 \<Longrightarrow> calculateFileTimeout file = 6000"
  by (simp add: calculateFileTimeout_def Let_def FILE_TIMEOUT_BASE_def FILE_TIMEOUT_PER_MB_def
      FILE_TIMEOUT_MIN_def FILE_TIMEOUT_MAX_def)

lemma processFile_reads:
  "PeerWeb_isMediaFile (file_name file) \<Longrightarrow>
   take (length (reads st) + 1) (reads (processFile getBuffer st file))
     = reads st @ [(file_name file, calculateFileTimeout file)]"
  by (auto simp: processFile_def Let_def split: option.splits)

lemma processFile_skips:
  "file_progress file < requiredProgress (file_name file) \<Longrightarrow>
   \<not> PeerWeb_isMediaFile (file_name file) \<Longrightarrow> processFile getBuffer st file = st"
  by (simp add: processFile_def Let_def)

lemma processFile_starts_read:
  "requiredProgress (file_name file) \<le> file_progress file \<Longrightarrow>
   take (length (reads st) + 1) (reads (processFile getBuffer st file))
     = reads st @ [(file_name file, calculateFileTimeout file)]"
  by (auto simp: processFile_def Let_def split: option.splits)

lemma processFile_read_succeeds:
  "requiredProgress (file_name file) \<le> file_progress file
     \<or> PeerWeb_isMediaFile (file_name file) \<Longrightarrow>
   getBuffer file (calculateFileTimeout file) False = Some buffer \<Longrightarrow>
   processFile getBuffer st file =
     st\<lparr>reads := reads st @ [(file_name file, calculateFileTimeout file)],
        siteData := setKey (siteData st) (file_name file)
          \<lparr>fr_content = buffer, fr_type = getContentType (file_name file),
           fr_isText = isTextFile (file_name file),
           fr_isMedia = PeerWeb_isMediaFile (file_name file), fr_size = length buffer\<rparr>,
        processedFiles := processedFiles st + 1\<rparr>"
  by (auto simp: processFile_def Let_def)

lemma requiredProgress_cases:
  "requiredProgress name =
     (if includes_str (toLowerCase name) ''index.html'' \<or> endsWith (toLowerCase name) ''.css''
      then 0.9
      else if PeerWeb_isMediaFile name then 0.7 else 0.8)"
  by (simp add: requiredProgress_def Let_def FILE_PROGRESS_THRESHOLD_ESSENTIAL_def
      FILE_PROGRESS_THRESHOLD_MEDIA_def FILE_PROGRESS_THRESHOLD_REGULAR_def)

lemma requiredProgress_js:
  "endsWith (toLowerCase name) ''.js'' \<Longrightarrow> \<not> includes_str (toLowerCase name) ''index.html''
   \<Longrightarrow> requiredProgress name = 0.8"
  unfolding requiredProgress_cases using js_not_css js_not_media by auto

text \<open>
  Claim C5, as amended. In the loop of early materialization the progress a file needs
  is 0.9 when its lower-cased name contains \<open>index.html\<close> or ends with
  \<open>.css\<close>, else 0.7 when it is media, else 0.8; a \<open>.js\<close> file that is not an
  index file needs 0.8. A file below its threshold that is not media is skipped: the loop
  state, with its counter of failed files, is unchanged. For a file at or above its
  threshold, and for a media file whatever its progress, a byte read is started; when
  that read succeeds the file is stored in the site data and counted as processed.
\<close>

theorem required_progress_by_file_type:
  "requiredProgress name =
     (if includes_str (toLowerCase name) ''index.html'' \<or> endsWith (toLowerCase name) ''.css''
      then 0.9
      else if PeerWeb_isMediaFile name then 0.7 else 0.8)
   \<and> (endsWith (toLowerCase name) ''.js'' \<and> \<not> includes_str (toLowerCase name) ''index.html''
        \<longrightarrow> requiredProgress name = 0.8)
   \<and> (file_progress file < requiredProgress (file_name file)
        \<and> \<not> PeerWeb_isMediaFile (file_name file)
        \<longrightarrow> processFile getBuffer st file = st)
   \<and> (PeerWeb_isMediaFile (file_name file) \<longrightarrow>
        take (length (reads st) + 1) (reads (processFile getBuffer st file))
          = reads st @ [(file_name file, calculateFileTimeout file)])
   \<and> (requiredProgress (file_name file) \<le> file_progress file \<longrightarrow>
        take (length (reads st) + 1) (reads (processFile getBuffer st file))
          = reads st @ [(file_name file, calculateFileTimeout file)])
   \<and> ((requiredProgress (file_name file) \<le> file_progress file
         \<or> PeerWeb_isMediaFile (file_name file))
        \<and> getBuffer file (calculateFileTimeout file) False = Some buffer \<longrightarrow>
        processFile getBuffer st file =
          st\<lparr>reads := reads st @ [(file_name file, calculateFileTimeout file)],
             siteData := setKey (siteData st) (file_name file)
               \<lparr>fr_content = buffer, fr_type = getContentType (file_name file),
                fr_isText = isTextFile (file_name file),
                fr_isMedia = PeerWeb_isMediaFile (file_name file), fr_size = length buffer\<rparr>,
             processedFiles := processedFiles st + 1\<rparr>)
   \<and> (\<not> PeerWeb_isMediaFile (file_name file)
        \<and> (includes_str (toLowerCase (file_name file)) ''index.html''
             \<or> endsWith (toLowerCase (file_name file)) ''.css'') \<longrightarrow>
        (file_progress file < 0.9 \<longrightarrow> processFile getBuffer st file = st)
        \<and> (0.9 \<le> file_progress file \<longrightarrow>
             take (length (reads st) + 1) (reads (processFile getBuffer st file))
               = reads st @ [(file_name file, calculateFileTimeout file)]))
   \<and> (\<not> PeerWeb_isMediaFile (file_name file)
        \<and> \<not> includes_str (toLowerCase (file_name file)) ''index.html''
        \<and> \<not> endsWith (toLowerCase (file_name file)) ''.css'' \<longrightarrow>
        (file_progress file < 0.8 \<longrightarrow> processFile getBuffer st file = st)
        \<and> (0.8 \<le> file_progress file \<longrightarrow>
             take (length (reads st) + 1) (reads (processFile getBuffer st file))
               = reads st @ [(file_name file, calculateFileTimeout file)]))
   \<and> (endsWith (toLowerCase (file_name file)) ''.js''
        \<and> \<not> includes_str (toLowerCase (file_name file)) ''index.html'' \<longrightarrow>
        (file_progress file < 0.8 \<longrightarrow> processFile getBuffer st file = st)
        \<and> (0.8 \<le> file_progress file \<longrightarrow>
             take (length (reads st) + 1) (reads (processFile getBuffer st file))
               = reads st @ [(file_name file, calculateFileTimeout file)]))"
proof (intro conjI impI)
  show "requiredProgress name =
     (if includes_str (toLowerCase name) ''index.html'' \<or> endsWith (toLowerCase name) ''.css''
      then 0.9
      else if PeerWeb_isMediaFile name then 0.7 else 0.8)"
    by (rule requiredProgress_cases)
next
  assume "endsWith (toLowerCase name) ''.js'' \<and> \<not> includes_str (toLowerCase name) ''index.html''"
  then show "requiredProgress name = 0.8"
    using requiredProgress_js by blast
next
  assume "file_progress file < requiredProgress (file_name file)
        \<and> \<not> PeerWeb_isMediaFile (file_name file)"
  then show "processFile getBuffer st file = st"
    using processFile_skips by blast
next
  assume "PeerWeb_isMediaFile (file_name file)"
  then show "take (length (reads st) + 1) (reads (processFile getBuffer st file))
          = reads st @ [(file_name file, calculateFileTimeout file)]"
    by (rule processFile_reads)
next
  assume "requiredProgress (file_name file) \<le> file_progress file"
  then show "take (length (reads st) + 1) (reads (processFile getBuffer st file))
          = reads st @ [(file_name file, calculateFileTimeout file)]"
    by (rule processFile_starts_read)
next
  assume "(requiredProgress (file_name file) \<le> file_progress file
         \<or> PeerWeb_isMediaFile (file_name file))
        \<and> getBuffer file (calculateFileTimeout file) False = Some buffer"
  then show "processFile getBuffer st file =
          st\<lparr>reads := reads st @ [(file_name file, calculateFileTimeout file)],
             siteData := setKey (siteData st) (file_name file)
               \<lparr>fr_content = buffer, fr_type = getContentType (file_name file),
                fr_isText = isTextFile (file_name file),
                fr_isMedia = PeerWeb_isMediaFile (file_name file), fr_size = length buffer\<rparr>,
             processedFiles := processedFiles st + 1\<rparr>"
    using processFile_read_succeeds by blast
next
  assume a: "\<not> PeerWeb_isMediaFile (file_name file)
        \<and> (includes_str (toLowerCase (file_name file)) ''index.html''
             \<or> endsWith (toLowerCase (file_name file)) ''.css'')"
  then have r: "requiredProgress (file_name file) = 0.9"
    unfolding requiredProgress_cases by auto
  {
    assume "file_progress file < 0.9"
    then show "processFile getBuffer st file = st"
      using a r processFile_skips by auto
  }
  {
    assume "0.9 \<le> file_progress file"
    then have "requiredProgress (file_name file) \<le> file_progress file"
      unfolding r .
    then show "take (length (reads st) + 1) (reads (processFile getBuffer st file))
               = reads st @ [(file_name file, calculateFileTimeout file)]"
      by (rule processFile_starts_read)
  }
next
  assume a: "\<not> PeerWeb_isMediaFile (file_name file)
        \<and> \<not> includes_str (toLowerCase (file_name file)) ''index.html''
        \<and> \<not> endsWith (toLowerCase (file_name file)) ''.css''"
  then have r: "requiredProgress (file_name file) = 0.8"
    unfolding requiredProgress_cases by auto
  {
    assume "file_progress file < 0.8"
    then show "processFile getBuffer st file = st"
      using a r processFile_skips by auto
  }
  {
    assume "0.8 \<le> file_progress file"
    then have "requiredProgress (file_name file) \<le> file_progress file"
      unfolding r .
    then show "take (length (reads st) + 1) (reads (processFile getBuffer st file))
               = reads st @ [(file_name file, calculateFileTimeout file)]"
      by (rule processFile_starts_read)
  }
next
  assume a: "endsWith (toLowerCase (file_name file)) ''.js''
        \<and> \<not> includes_str (toLowerCase (file_name file)) ''index.html''"
  then have r: "requiredProgress (file_name file) = 0.8"
    using requiredProgress_js by blast
  have m: "\<not> PeerWeb_isMediaFile (file_name file)"
    using a js_not_media by blast
  {
    assume "file_progress file < 0.8"
    then show "processFile getBuffer st file = st"
      using m r processFile_skips by auto
  }
  {
    assume "0.8 \<le> file_progress file"
    then have "requiredProgress (file_name file) \<le> file_progress file"
      unfolding r .
    then show "take (length (reads st) + 1) (reads (processFile getBuffer st file))
               = reads st @ [(file_name file, calculateFileTimeout file)]"
      by (rule processFile_starts_read)
  }
qed

lemma example_names:
  "toLowerCase ''app.js'' = ''app.js''" "toLowerCase ''movie.mp4'' = ''movie.mp4''"
  "toLowerCase ''logo.png'' = ''logo.png''"
  "sortEssential ''app.js'' = True"
  "endsWith ''app.js'' ''.js'' = True" "includes_str ''app.js'' ''index.html'' = False"
  "endsWith ''app.js'' ''.css'' = False" "PeerWeb_isMediaFile ''app.js'' = False"
  "PeerWeb_isMediaFile ''movie.mp4'' = True" "includes_str ''movie.mp4'' ''index.html'' = False"
  "endsWith ''movie.mp4'' ''.css'' = False" "endsWith ''movie.mp4'' ''.js'' = False"
  "PeerWeb_isMediaFile ''logo.png'' = False" "includes_str ''logo.png'' ''index.html'' = False"
  "endsWith ''logo.png'' ''.css'' = False" "endsWith ''logo.png'' ''.js'' = False"
  by code_simp+

lemma example_files:
  "file_name example_script_file = ''app.js''"
  "file_progress example_script_file = 0.85" "file_length example_script_file = 1048576"
  "file_name example_media_file = ''movie.mp4''"
  "file_progress example_media_file = 0.1" "file_length example_media_file = 1048576"
  "file_name example_image_file = ''logo.png''"
  "file_progress example_image_file = 0.5" "file_length example_image_file = 1048576"
  "reads example_early_state = []"
  by (simp_all add: example_script_file_def example_media_file_def example_image_file_def
      example_early_state_def)

text \<open>
  The claim C5 as stated fails: \<open>app.js\<close> counts as essential in the sort, needs 0.8
  and not 0.9, and at 85% its bytes are read.
\<close>

theorem script_threshold_counterexample:
  "sortEssential (file_name example_script_file)
   \<and> requiredProgress (file_name example_script_file) = 0.8
   \<and> requiredProgress (file_name example_script_file) \<noteq> 0.9
   \<and> file_progress example_script_file = 0.85
   \<and> reads (processFile example_getBuffer example_early_state example_script_file)
       = [(''app.js'', 6000)]"
proof -
  have req: "requiredProgress ''app.js'' = 0.8"
    unfolding requiredProgress_def Let_def example_names FILE_PROGRESS_THRESHOLD_REGULAR_def
    by simp
  have rd: "reads (processFile example_getBuffer example_early_state example_script_file)
       = [(''app.js'', 6000)]"
    unfolding processFile_def Let_def example_files req example_names
      calculateFileTimeout_1MB [OF example_files(3)] example_getBuffer_def
    by simp
  show ?thesis
    unfolding example_files example_names req using rd by simp
qed

theorem required_progress_by_file_type_witness:
  "PeerWeb_isMediaFile (file_name example_media_file)
   \<and> requiredProgress (file_name example_media_file) = 0.7
   \<and> file_progress example_media_file < requiredProgress (file_name example_media_file)
   \<and> take 1 (reads (processFile example_getBuffer example_early_state example_media_file))
       = [(''movie.mp4'', 6000)]
   \<and> \<not> PeerWeb_isMediaFile (file_name example_image_file)
   \<and> requiredProgress (file_name example_image_file) = 0.8
   \<and> file_progress example_image_file < requiredProgress (file_name example_image_file)
   \<and> processFile example_getBuffer example_early_state example_image_file = example_early_state
   \<and> endsWith (toLowerCase ''app.js'') ''.js''
   \<and> requiredProgress ''app.js'' = 0.8
   \<and> file_progress example_script_file = 0.85
   \<and> example_getBuffer example_script_file 6000 False = Some [1, 2, 3]
   \<and> processFile example_getBuffer example_early_state example_script_file
       = \<lparr>siteData =
            [(''app.js'',
              \<lparr>fr_content = [1, 2, 3], fr_type = ''application/javascript'', fr_isText = True,
               fr_isMedia = False, fr_size = 3\<rparr>)],
          processedFiles = 1, failedFiles = 0, reads = [(''app.js'', 6000)]\<rparr>"
proof -
  note t1 = required_progress_by_file_type
    [of "''movie.mp4''" example_media_file example_getBuffer example_early_state,
      unfolded example_files example_names calculateFileTimeout_1MB [OF example_files(6)]]
  note t2 = required_progress_by_file_type
    [of "''logo.png''" example_image_file example_getBuffer example_early_state,
      unfolded example_files example_names]
  note t3 = required_progress_by_file_type
    [of "''app.js''" example_script_file example_getBuffer example_early_state "[1, 2, 3]",
      unfolded example_files example_names calculateFileTimeout_1MB [OF example_files(3)]]
  have g: "example_getBuffer example_script_file 6000 False = Some [1, 2, 3]"
    by (simp add: example_getBuffer_def)
  have ty: "getContentType ''app.js'' = ''application/javascript''" "isTextFile ''app.js'' = True"
    by code_simp+
  have a: "requiredProgress ''movie.mp4'' = 0.7"
    using t1 by simp
  have b: "requiredProgress ''logo.png'' = 0.8"
    using t2 by simp
  have d: "requiredProgress ''app.js'' = 0.8"
    using t3 by simp
  have e: "processFile example_getBuffer example_early_state example_image_file = example_early_state"
    using t2 unfolding b by simp
  have f: "take 1 (reads (processFile example_getBuffer example_early_state example_media_file))
       = [(''movie.mp4'', 6000)]"
    using t1 by simp
  have h: "processFile example_getBuffer example_early_state example_script_file
       = \<lparr>siteData =
            [(''app.js'',
              \<lparr>fr_content = [1, 2, 3], fr_type = ''application/javascript'', fr_isText = True,
               fr_isMedia = False, fr_size = 3\<rparr>)],
          processedFiles = 1, failedFiles = 0, reads = [(''app.js'', 6000)]\<rparr>"
    using t3 unfolding d g ty by (simp add: example_early_state_def setKey_def)
  show ?thesis
    unfolding example_files example_names a b d e f g h by simp
qed

section \<open>Path normalization\<close>

lemma includes_str_char: "includes_str s [c] \<longleftrightarrow> c \<in> set s"
  by (induction s) (auto simp: startsWith_def)

lemma hd_split: "hd (split sep s) = takeWhile (\<lambda>c. c \<noteq> sep) s"
  by (induction s) (auto split: list.splits simp: split_not_Nil)

lemma endsWith_char: "endsWith s [c] \<longleftrightarrow> s \<noteq> [] \<and> last s = c"
  unfolding endsWith_append
  by (metis append_butlast_last_id last_snoc snoc_eq_iff_butlast)

lemma normalizeFilePath_dot_slash:
  "normalizeFilePath siteFiles (''./'' @ q) u =
     (if q = [] \<or> endsWith q ''/'' then ''./'' @ q @ ''index.html''
      else if url_search u \<noteq> [] \<or> url_hash u \<noteq> []
        then ''./'' @ takeWhile (\<lambda>c. c \<noteq> CHR ''#'') (takeWhile (\<lambda>c. c \<noteq> CHR ''?'') q)
      else ''./'' @ q)"
  unfolding normalizeFilePath_def Let_def hd_split
  by (simp add: endsWith_char includes_str_char)

lemma normalizeFilePath_with_dot:
  assumes "q = [] \<or> endsWith q ''/'' \<or> includes_str q ''.''"
  shows "normalizeFilePath siteFiles q u =
     (if q = [] \<or> endsWith q ''/'' then q @ ''index.html''
      else if url_search u \<noteq> [] \<or> url_hash u \<noteq> []
        then takeWhile (\<lambda>c. c \<noteq> CHR ''#'') (takeWhile (\<lambda>c. c \<noteq> CHR ''?'') q)
      else q)"
  using assms unfolding normalizeFilePath_def Let_def hd_split by auto

lemma normalizeFilePath_no_dot_length:
  assumes "q \<noteq> []" and "\<not> endsWith q ''/''" and "\<not> includes_str q ''.''"
  shows "length (normalizeFilePath siteFiles q u) \<ge> length q + 5"
  using assms by (auto simp: normalizeFilePath_def Let_def)

lemma length_clean:
  "length (takeWhile (\<lambda>c. c \<noteq> CHR ''#'') (takeWhile (\<lambda>c. c \<noteq> CHR ''?'') q)) \<le> length q"
  by (meson length_takeWhile_le order_trans)

text \<open>
  Claim C6, as amended. \<open>normalizeFilePath\<close> does not strip a leading \<open>./\<close>: for
  every path that begins with \<open>./\<close> the result begins with \<open>./\<close> and differs
  from the result for the path without it (same known files, same URL). When the rest of
  the path is empty, ends with a slash or contains a dot, the result is \<open>./\<close>
  followed by the result for the rest.
\<close>

theorem normalizeFilePath_keeps_dot_slash:
  "normalizeFilePath siteFiles (''./'' @ q) u \<noteq> normalizeFilePath siteFiles q u
   \<and> startsWith (normalizeFilePath siteFiles (''./'' @ q) u) ''./''
   \<and> (q = [] \<or> endsWith q ''/'' \<or> includes_str q ''.'' \<longrightarrow>
        normalizeFilePath siteFiles (''./'' @ q) u = ''./'' @ normalizeFilePath siteFiles q u)"
proof (intro conjI impI)
  show "startsWith (normalizeFilePath siteFiles (''./'' @ q) u) ''./''"
    unfolding normalizeFilePath_dot_slash by (simp add: startsWith_def)
  show keep: "normalizeFilePath siteFiles (''./'' @ q) u = ''./'' @ normalizeFilePath siteFiles q u"
    if "q = [] \<or> endsWith q ''/'' \<or> includes_str q ''.''"
    unfolding normalizeFilePath_dot_slash normalizeFilePath_with_dot [OF that] by simp
  show "normalizeFilePath siteFiles (''./'' @ q) u \<noteq> normalizeFilePath siteFiles q u"
  proof (cases "q = [] \<or> endsWith q ''/'' \<or> includes_str q ''.''")
    case True
    from keep [OF True]
    have "length (normalizeFilePath siteFiles (''./'' @ q) u)
        = length (normalizeFilePath siteFiles q u) + 2"
      by simp
    then show ?thesis by auto
  next
    case False
    then have long: "length (normalizeFilePath siteFiles q u) \<ge> length q + 5"
      using normalizeFilePath_no_dot_length by blast
    have "length (normalizeFilePath siteFiles (''./'' @ q) u) \<le> length q + 2"
      unfolding normalizeFilePath_dot_slash using False length_clean [of q] by auto
    with long show ?thesis by auto
  qed
qed

text \<open>
  The claim C6 as stated fails: \<open>./foo\<close> is left as it is, \<open>foo\<close> becomes
  \<open>foo/index.html\<close>.
\<close>

theorem leading_dot_slash_counterexample:
  "normalizeFilePath {} ''./foo'' example_plain_url = ''./foo''
   \<and> normalizeFilePath {} ''foo'' example_plain_url = ''foo/index.html''"
  by (simp add: normalizeFilePath_def example_plain_url_def endsWith_def startsWith_def)

theorem normalizeFilePath_keeps_dot_slash_witness:
  "includes_str ''style.css'' ''.''
   \<and> normalizeFilePath {''style.css''} ''./style.css'' example_plain_url = ''./style.css''
   \<and> normalizeFilePath {''style.css''} ''style.css'' example_plain_url = ''style.css''"
proof -
  have i: "includes_str ''style.css'' ''.''"
    by code_simp
  have n: "normalizeFilePath {''style.css''} ''style.css'' example_plain_url = ''style.css''"
    by (simp add: normalizeFilePath_def example_plain_url_def endsWith_def startsWith_def)
  from normalizeFilePath_keeps_dot_slash [of "{''style.css''}" "''style.css''" example_plain_url]
  have "''style.css'' = [] \<or> endsWith ''style.css'' ''/'' \<or> includes_str ''style.css'' ''.''
      \<longrightarrow> normalizeFilePath {''style.css''} (''./'' @ ''style.css'') example_plain_url
        = ''./'' @ normalizeFilePath {''style.css''} ''style.css'' example_plain_url"
    by blast
  with i have "normalizeFilePath {''style.css''} (''./'' @ ''style.css'') example_plain_url
        = ''./'' @ normalizeFilePath {''style.css''} ''style.css'' example_plain_url"
    by blast
  then have "normalizeFilePath {''style.css''} ''./style.css'' example_plain_url = ''./style.css''"
    unfolding n by simp
  with i n show ?thesis by blast
qed

section \<open>Lookup in the site data\<close>

lemma map_of_key: "k \<in> fst ` set sd \<Longrightarrow> map_of sd k \<noteq> None"
  by (simp add: map_of_eq_None_iff)

lemma find_Some_holds: "find P xs = Some x \<Longrightarrow> P x \<and> x \<in> set xs"
  by (induction xs) (auto split: if_splits)

lemma foo_clean: "cleanRequestedPath ''foo'' = ''foo''"
  by (simp add: cleanRequestedPath_def startsWith_def)

lemma sub_foo_html_facts:
  "pop (split CHR ''/'' ''sub/foo.html'') = ''foo.html''"
  "pop (split CHR ''/'' ''foo'') = ''foo''"
  "endsWith ''sub/foo.html'' ''foo'' = False"
  "endsWith ''foo'' ''sub/foo.html'' = False"
  by code_simp+

text \<open>
  Claim C7, as amended. For the requested path \<open>foo\<close> and a manifest with no key
  \<open>foo\<close>, the exact-match loop finds nothing, and neither the filename loop nor the
  ending loop ever stops at the key \<open>sub/foo.html\<close>. The lookup returns \<open>null\<close>
  exactly when no key has \<open>foo\<close> as its last component, ends with \<open>foo\<close>, or is
  an ending of \<open>foo\<close>.
\<close>

theorem lookup_foo_stages:
  assumes "map_of sd ''foo'' = None"
  shows "exactMatch sd ''foo'' = None
     \<and> filenameMatch sd ''foo'' \<noteq> Some ''sub/foo.html''
     \<and> endingMatch sd ''foo'' \<noteq> Some ''sub/foo.html''
     \<and> (findFileInSiteData (Some sd) ''foo'' = None \<longleftrightarrow>
          (\<forall>key \<in> fst ` set sd.
             pop (split CHR ''/'' key) \<noteq> ''foo''
             \<and> \<not> endsWith key ''foo'' \<and> \<not> endsWith ''foo'' key))"
proof (intro conjI)
  show exact: "exactMatch sd ''foo'' = None"
    using assms by (simp add: exactMatch_def foo_clean)
  show "filenameMatch sd ''foo'' \<noteq> Some ''sub/foo.html''"
  proof
    assume "filenameMatch sd ''foo'' = Some ''sub/foo.html''"
    then have "pop (split CHR ''/'' ''sub/foo.html'') = pop (split CHR ''/'' ''foo'')"
      unfolding filenameMatch_def Let_def foo_clean by (rule find_Some_holds [THEN conjunct1])
    then show False unfolding sub_foo_html_facts by simp
  qed
  show "endingMatch sd ''foo'' \<noteq> Some ''sub/foo.html''"
  proof
    assume "endingMatch sd ''foo'' = Some ''sub/foo.html''"
    then have "endsWith ''sub/foo.html'' ''foo'' \<or> endsWith ''foo'' ''sub/foo.html''"
      unfolding endingMatch_def Let_def foo_clean by (rule find_Some_holds [THEN conjunct1])
    then show False unfolding sub_foo_html_facts by simp
  qed
  have fn: "filenameMatch sd ''foo'' = None \<longleftrightarrow>
      (\<forall>key \<in> fst ` set sd. pop (split CHR ''/'' key) \<noteq> ''foo'')"
    unfolding filenameMatch_def Let_def foo_clean sub_foo_html_facts
    by (auto simp: find_None_iff)
  have en: "endingMatch sd ''foo'' = None \<longleftrightarrow>
      (\<forall>key \<in> fst ` set sd. \<not> endsWith key ''foo'' \<and> \<not> endsWith ''foo'' key)"
    unfolding endingMatch_def Let_def foo_clean
    by (auto simp: find_None_iff)
  have fnk: "map_of sd key \<noteq> None" if "filenameMatch sd ''foo'' = Some key" for key
  proof -
    from that have "key \<in> set (map fst sd)"
      unfolding filenameMatch_def Let_def by (rule find_Some_holds [THEN conjunct2])
    then show ?thesis by (simp add: map_of_key)
  qed
  have enk: "map_of sd key \<noteq> None" if "endingMatch sd ''foo'' = Some key" for key
  proof -
    from that have "key \<in> set (map fst sd)"
      unfolding endingMatch_def Let_def by (rule find_Some_holds [THEN conjunct2])
    then show ?thesis by (simp add: map_of_key)
  qed
  show "findFileInSiteData (Some sd) ''foo'' = None \<longleftrightarrow>
          (\<forall>key \<in> fst ` set sd.
             pop (split CHR ''/'' key) \<noteq> ''foo''
             \<and> \<not> endsWith key ''foo'' \<and> \<not> endsWith ''foo'' key)"
  proof (cases "filenameMatch sd ''foo''")
    case None
    note fnone = this
    show ?thesis
    proof (cases "endingMatch sd ''foo''")
      case None
      with fnone exact fn en show ?thesis
        by (auto simp: findFileInSiteData_def)
    next
      case (Some key)
      with fnone exact fn en enk [OF Some] show ?thesis
        by (auto simp: findFileInSiteData_def)
    qed
  next
    case (Some key)
    with exact fn fnk [OF Some] show ?thesis
      by (auto simp: findFileInSiteData_def)
  qed
qed

text \<open>
  The claim C7 as stated fails: with \<open>sub/foo.html\<close> as the only entry every loop
  finds nothing and the lookup returns \<open>null\<close>.
\<close>

theorem lookup_foo_counterexample:
  "map fst example_manifest = [''sub/foo.html'']
   \<and> exactMatch example_manifest ''foo'' = None
   \<and> filenameMatch example_manifest ''foo'' = None
   \<and> endingMatch example_manifest ''foo'' = None
   \<and> findFileInSiteData (Some example_manifest) ''foo'' = None"
  by (simp add: example_manifest_def findFileInSiteData_def exactMatch_def filenameMatch_def
      endingMatch_def foo_clean sub_foo_html_facts pop_def)

theorem lookup_foo_stages_witness:
  "map_of example_manifest ''foo'' = None
   \<and> exactMatch example_manifest ''foo'' = None
   \<and> findFileInSiteData (Some example_manifest) ''foo'' = None"
proof -
  have a: "map_of example_manifest ''foo'' = None"
    by (simp add: example_manifest_def)
  have k: "fst ` set example_manifest = {''sub/foo.html''}"
    by (simp add: example_manifest_def)
  from lookup_foo_stages [OF a]
  show ?thesis using a unfolding k by (simp add: sub_foo_html_facts pop_def)
qed

end
